theory Spec2Isabelle
  imports Main "HOL-Library.Word"
begin

section \<open>Python values used by chatbot.py\<close>

text \<open>
  A Python \<open>str\<close> is a sequence of Unicode code points, so it is modelled as a list of
  natural numbers (\<open>len\<close>, slicing and \<open>strip\<close> count code points, not bytes). The
  reserved control tokens of the application lie outside ASCII. \<open>bytes\<close> are lists of
  8-bit characters. ASCII literals of the source are written \<open>ascii ''...''\<close>.
\<close>

type_synonym pystr = "nat list"
type_synonym bytes = "char list"

definition ascii :: "string \<Rightarrow> pystr" where
  "ascii s = map of_char s"

text \<open>\<open>str.isspace\<close> of CPython 3 for one code point, and \<open>str.strip()\<close>.\<close>

definition isspace :: "nat \<Rightarrow> bool" where
  "isspace c \<longleftrightarrow>
     (9 \<le> c \<and> c \<le> 13) \<or> (28 \<le> c \<and> c \<le> 32) \<or> c = 133 \<or> c = 160 \<or> c = 5760 \<or>
     (8192 \<le> c \<and> c \<le> 8202) \<or> c = 8232 \<or> c = 8233 \<or> c = 8239 \<or> c = 8287 \<or> c = 12288"

definition strip :: "pystr \<Rightarrow> pystr" where
  "strip s = rev (dropWhile isspace (rev (dropWhile isspace s)))"

text \<open>
  A decoded JSON value, as \<open>json.loads\<close> returns it: \<open>None\<close>, \<open>bool\<close>, \<open>int\<close>,
  \<open>float\<close> (kept as its IEEE-754 bit pattern; the program only tests its type and its
  truth value), \<open>str\<close>, \<open>list\<close> and \<open>dict\<close> (string keys, in insertion order). A
  dictionary is an association list that is read with \<open>map_of\<close>; no statement below needs
  its keys to be distinct.
\<close>

datatype json =
    JNull
  | JBool bool
  | JInt int
  | JFloat "64 word"
  | JStr pystr
  | JList "json list"
  | JDict "(pystr \<times> json) list"

type_synonym dict = "(pystr \<times> json) list"

fun truthy :: "json \<Rightarrow> bool" where
  "truthy JNull = False"
| "truthy (JBool b) = b"
| "truthy (JInt i) = (i \<noteq> 0)"
| "truthy (JFloat w) = (w \<noteq> 0 \<and> w \<noteq> 0x8000000000000000)"
| "truthy (JStr s) = (s \<noteq> [])"
| "truthy (JList xs) = (xs \<noteq> [])"
| "truthy (JDict d) = (d \<noteq> [])"

text \<open>Python's \<open>a or b\<close>: \<open>a\<close> when it is truthy, otherwise \<open>b\<close>.\<close>

definition py_or :: "json \<Rightarrow> json \<Rightarrow> json" where
  "py_or a b = (if truthy a then a else b)"

datatype py_error =
    KeyError | HTTPError | ConnectionError | IOError | JSONDecodeError | RecursionError | ValueError

text \<open>\<open>d.get(k)\<close> (\<open>None\<close> when the key is absent), \<open>k in d\<close>, and \<open>d[k]\<close>, which raises.\<close>

definition dict_get :: "dict \<Rightarrow> pystr \<Rightarrow> json" where
  "dict_get d k = (case map_of d k of None \<Rightarrow> JNull | Some v \<Rightarrow> v)"

definition contains :: "pystr \<Rightarrow> dict \<Rightarrow> bool" where
  "contains k d \<longleftrightarrow> map_of d k \<noteq> None"

definition subscript :: "dict \<Rightarrow> pystr \<Rightarrow> py_error + json" where
  "subscript d k = (case map_of d k of None \<Rightarrow> Inl KeyError | Some v \<Rightarrow> Inr v)"

fun is_str :: "json \<Rightarrow> bool" where
  "is_str (JStr s) = True"
| "is_str _ = False"

section \<open>extract_text_from_obj\<close>

text \<open>
  The function is a chain of blocks, each of which either returns a string or falls
  through to the next one. A block yields \<open>Inr (Some s)\<close> when it returns \<open>s\<close>,
  \<open>Inr None\<close> when it falls through, and \<open>Inl e\<close> when it raises.
\<close>

definition or_else ::
  "py_error + pystr option \<Rightarrow> py_error + pystr option \<Rightarrow> py_error + pystr option" where
  "or_else r next_block =
     (case r of Inl e \<Rightarrow> Inl e | Inr (Some s) \<Rightarrow> Inr (Some s) | Inr None \<Rightarrow> next_block)"

text \<open>\<open>if k in d and isinstance(d[k], str): return d[k]\<close>\<close>

definition str_at :: "dict \<Rightarrow> pystr \<Rightarrow> py_error + pystr option" where
  "str_at d k =
     (if contains k d then
        (case subscript d k of
           Inl e \<Rightarrow> Inl e
         | Inr (JStr s) \<Rightarrow> Inr (Some s)
         | Inr _ \<Rightarrow> Inr None)
      else Inr None)"

definition direct_keys :: "pystr list" where
  "direct_keys =
     [ascii ''response'', ascii ''text'', ascii ''generated_text'', ascii ''output_text'',
      ascii ''content'']"

text \<open>\<open>for k in (...): v = obj.get(k); if isinstance(v, str): return v\<close>\<close>

fun direct_fields :: "dict \<Rightarrow> pystr list \<Rightarrow> pystr option" where
  "direct_fields obj [] = None"
| "direct_fields obj (k # ks) =
     (case dict_get obj k of JStr v \<Rightarrow> Some v | _ \<Rightarrow> direct_fields obj ks)"

text \<open>\<open>for k in ("content", "text"): if k in msg and isinstance(msg[k], str): return msg[k]\<close>\<close>

fun msg_fields :: "dict \<Rightarrow> pystr list \<Rightarrow> py_error + pystr option" where
  "msg_fields m [] = Inr None"
| "msg_fields m (k # ks) = or_else (str_at m k) (msg_fields m ks)"

text \<open>
  \<open>[p.get("text") or p.get("content") for p in msg["content"] if isinstance(p, dict)]\<close>,
  then the strings among them.
\<close>

definition part_values :: "json list \<Rightarrow> json list" where
  "part_values ps = [py_or (dict_get p (ascii ''text'')) (dict_get p (ascii ''content'')). JDict p \<leftarrow> ps]"

definition str_parts :: "json list \<Rightarrow> pystr list" where
  "str_parts vs = [s. JStr s \<leftarrow> vs]"

definition msg_parts :: "dict \<Rightarrow> py_error + pystr option" where
  "msg_parts m =
     (if contains (ascii ''content'') m then
        (case subscript m (ascii ''content'') of
           Inl e \<Rightarrow> Inl e
         | Inr (JList ps) \<Rightarrow>
             (let parts = str_parts (part_values ps)
              in if parts \<noteq> [] then Inr (Some (concat parts)) else Inr None)
         | Inr _ \<Rightarrow> Inr None)
      else Inr None)"

definition from_message :: "dict \<Rightarrow> py_error + pystr option" where
  "from_message obj =
     (case py_or (dict_get obj (ascii ''message'')) (dict_get obj (ascii ''msg'')) of
        JDict m \<Rightarrow> or_else (msg_fields m [ascii ''content'', ascii ''text'']) (msg_parts m)
      | _ \<Rightarrow> Inr None)"

definition from_delta :: "dict \<Rightarrow> py_error + pystr option" where
  "from_delta obj =
     (case dict_get obj (ascii ''delta'') of
        JDict dl \<Rightarrow> or_else (str_at dl (ascii ''content'')) (str_at dl (ascii ''text''))
      | _ \<Rightarrow> Inr None)"

text \<open>One entry of \<open>choices\<close>: the text it appends to \<open>texts\<close>, if any.\<close>

definition choice_delta :: "dict \<Rightarrow> py_error + pystr option" where
  "choice_delta ch =
     (case dict_get ch (ascii ''delta'') of
        JDict cdelta \<Rightarrow> str_at cdelta (ascii ''content'')
      | _ \<Rightarrow> Inr None)"

definition choice_message :: "dict \<Rightarrow> py_error + pystr option" where
  "choice_message ch =
     (case dict_get ch (ascii ''message'') of
        JDict cmsg \<Rightarrow> str_at cmsg (ascii ''content'')
      | _ \<Rightarrow> Inr None)"

definition choice_text :: "json \<Rightarrow> py_error + pystr option" where
  "choice_text ch =
     (case ch of
        JDict c \<Rightarrow> or_else (str_at c (ascii ''text'')) (or_else (choice_message c) (choice_delta c))
      | _ \<Rightarrow> Inr None)"

fun choice_texts :: "json list \<Rightarrow> py_error + pystr list" where
  "choice_texts [] = Inr []"
| "choice_texts (ch # rest) =
     (case choice_text ch of
        Inl e \<Rightarrow> Inl e
      | Inr t \<Rightarrow>
          (case choice_texts rest of
             Inl e \<Rightarrow> Inl e
           | Inr ts \<Rightarrow> Inr (case t of None \<Rightarrow> ts | Some s \<Rightarrow> s # ts)))"

definition from_choices :: "dict \<Rightarrow> py_error + pystr option" where
  "from_choices obj =
     (case dict_get obj (ascii ''choices'') of
        JList choices \<Rightarrow>
          (case choice_texts choices of
             Inl e \<Rightarrow> Inl e
           | Inr texts \<Rightarrow> if texts \<noteq> [] then Inr (Some (concat texts)) else Inr None)
      | _ \<Rightarrow> Inr None)"

fun extract_text_from_obj :: "json \<Rightarrow> py_error + pystr option" where
  "extract_text_from_obj JNull = Inr None"
| "extract_text_from_obj (JStr s) = Inr (Some s)"
| "extract_text_from_obj (JDict obj) =
     or_else (Inr (direct_fields obj direct_keys))
       (or_else (from_message obj) (or_else (from_delta obj) (from_choices obj)))"
| "extract_text_from_obj _ = Inr None"

section \<open>The environment of the program\<close>

text \<open>
  Library functions and the outside world are parameters of the model: the program's
  behaviour is stated for every choice of them.
\<close>

record message =
  role :: pystr
  content :: pystr
  images :: "pystr list option"

text \<open>
  One line delivered by \<open>r.iter_lines\<close>, or the connection failing while the body is
  read; the answer to a request is a status with its body, or no answer at all.
\<close>

datatype line_event = Line bytes | Broken

datatype http_response = Unreachable | Response nat "line_event list"

datatype tags_response = TagsUnreachable | TagsReply nat "json option"

text \<open>The content of the Tk text widget: characters and embedded images.\<close>

datatype witem = Ch nat | Img

record env =
  base_url :: pystr
  utf8_decode :: "bytes \<Rightarrow> pystr"
  py_str :: "json \<Rightarrow> pystr"
  exc_text :: "py_error \<Rightarrow> pystr"
  json_loads :: "pystr \<Rightarrow> py_error + json"
  sha256_hex :: "bytes \<Rightarrow> pystr"
  b64encode :: "bytes \<Rightarrow> pystr"
  read_file :: "pystr \<Rightarrow> bytes option"
  get_tags :: tags_response
  post_chat :: "pystr \<Rightarrow> message list \<Rightarrow> http_response"
  pil_available :: bool
  image_opens :: "pystr \<Rightarrow> bool"
  text_delete :: "witem list \<Rightarrow> nat \<Rightarrow> witem list option"

text \<open>
  \<open>utf8_decode\<close> is \<open>bytes.decode("utf-8", errors="replace")\<close>; \<open>py_str\<close> is the
  builtin \<open>str\<close> on a value that is not a \<open>str\<close>; \<open>exc_text\<close> is \<open>str(exc)\<close>;
  \<open>json_loads\<close> is \<open>json.loads\<close>: the value it returns, or the exception it raises
  (\<open>JSONDecodeError\<close> on a text that is not JSON, \<open>RecursionError\<close> on nesting deeper
  than the interpreter allows, \<open>ValueError\<close> on an integer with more digits than it
  allows);
  \<open>read_file\<close> is \<open>open(path, "rb").read()\<close>, \<open>None\<close> when it raises;
  \<open>get_tags\<close> and \<open>post_chat\<close> are the server's answers to \<open>GET /api/tags\<close> and
  \<open>POST /api/chat\<close>; \<open>image_opens\<close> says whether Pillow opens the file;
  \<open>text_delete w i\<close> is the widget content after \<open>history.delete(i, "end")\<close>, \<open>None\<close>
  when Tk raises.
\<close>

section \<open>Utilities\<close>

datatype pyval = PyBytes bytes | PyJson json

definition ensure_str :: "env \<Rightarrow> pyval \<Rightarrow> pystr" where
  "ensure_str E x =
     (case x of
        PyBytes b \<Rightarrow> utf8_decode E b
      | PyJson (JStr s) \<Rightarrow> s
      | PyJson v \<Rightarrow> py_str E v)"

definition raise_for_status :: "nat \<Rightarrow> 'a \<Rightarrow> py_error + 'a" where
  "raise_for_status st x = (if 400 \<le> st \<and> st < 600 then Inl HTTPError else Inr x)"

section \<open>OllamaClient\<close>

definition list_models :: "env \<Rightarrow> py_error + json" where
  "list_models E =
     (case get_tags E of
        TagsUnreachable \<Rightarrow> Inl ConnectionError
      | TagsReply st body \<Rightarrow>
          (case raise_for_status st body of
             Inl e \<Rightarrow> Inl e
           | Inr None \<Rightarrow> Inl JSONDecodeError
           | Inr (Some data) \<Rightarrow>
               (case data of
                  JDict d \<Rightarrow>
                    if contains (ascii ''tags'') d then subscript d (ascii ''tags'') else Inr data
                | _ \<Rightarrow> Inr data)))"

datatype request = Put pystr bytes | Post pystr bytes

datatype reply = NoReply | Status nat

text \<open>
  \<open>upload_blob\<close> with the replies of the server to the PUT and, if it is sent, to the
  POST; the result comes with the requests issued, in order.
\<close>

definition upload_blob ::
  "env \<Rightarrow> pystr \<Rightarrow> reply \<Rightarrow> reply \<Rightarrow> request list \<times> (py_error + pystr)" where
  "upload_blob E file_path put_reply post_reply =
     (case read_file E file_path of
        None \<Rightarrow> ([], Inl IOError)
      | Some data \<Rightarrow>
          (let digest = ascii ''sha256:'' @ sha256_hex E data;
               url = base_url E @ ascii ''/api/blobs/'' @ digest
           in case put_reply of
                NoReply \<Rightarrow> ([Put url data], Inl ConnectionError)
              | Status st \<Rightarrow>
                  if st \<noteq> 200 \<and> st \<noteq> 201 then
                    (case post_reply of
                       NoReply \<Rightarrow> ([Put url data, Post url data], Inl ConnectionError)
                     | Status st2 \<Rightarrow> ([Put url data, Post url data], raise_for_status st2 digest))
                  else ([Put url data], raise_for_status st digest)))"

text \<open>
  The generator \<open>chat_stream\<close> as the list of what it does, in order: it yields a
  fragment (\<open>Chunk\<close>) or raises (\<open>Raised\<close>, always last). The handler in the loop is
  \<open>except json.JSONDecodeError\<close>: any other exception of \<open>json.loads\<close> leaves the
  generator, which then yields nothing more.
\<close>

datatype chunk = Chunk pystr | Raised py_error

fun stream_lines :: "env \<Rightarrow> line_event list \<Rightarrow> chunk list" where
  "stream_lines E [] = []"
| "stream_lines E (Broken # rest) = [Raised ConnectionError]"
| "stream_lines E (Line raw # rest) =
     (if raw = [] then stream_lines E rest
      else
        (let line = ensure_str E (PyBytes raw)
         in case json_loads E line of
              Inl exc \<Rightarrow>
                if exc = JSONDecodeError then Chunk line # stream_lines E rest
                else [Raised exc]
            | Inr obj \<Rightarrow>
                (case extract_text_from_obj obj of
                   Inl e \<Rightarrow> [Raised e]
                 | Inr (Some extracted) \<Rightarrow>
                     Chunk (ensure_str E (PyJson (JStr extracted))) # stream_lines E rest
                 | Inr None \<Rightarrow> Chunk line # stream_lines E rest)))"

definition chat_stream :: "env \<Rightarrow> pystr \<Rightarrow> message list \<Rightarrow> chunk list" where
  "chat_stream E model messages =
     (case post_chat E model messages of
        Unreachable \<Rightarrow> [Raised ConnectionError]
      | Response st body \<Rightarrow>
          (case raise_for_status st body of
             Inl e \<Rightarrow> [Raised e]
           | Inr lines \<Rightarrow> stream_lines E lines))"

section \<open>ChatApp: state\<close>

text \<open>
  An entry of \<open>self.histories[model]\<close>: the dictionaries with role \<open>user\<close>,
  \<open>assistant\<close> and \<open>image\<close> (path and caption).
\<close>

datatype entry = UserEntry pystr | AssistantEntry pystr | ImageEntry pystr "pystr option"

text \<open>
  The attributes of \<open>ChatApp\<close> that the modelled methods read or write; \<open>history\<close>,
  \<open>input_box\<close> and \<open>model_listbox\<close> are the contents of the three widgets. A widget
  index is the number of items before it, so an index that is set is never falsy, as
  Tk's index strings are not. Colours, fonts, the height of the input box and the list
  that keeps the pictures alive have no part in what follows and are left out.
\<close>

record app =
  current_model :: "pystr option"
  attached_image_path :: "pystr option"
  last_assistant_index :: "nat option"
  model_running :: bool
  histories :: "pystr \<rightharpoonup> entry list"
  history :: "witem list"
  input_box :: pystr
  model_listbox :: "pystr list"

definition init_app :: app where
  "init_app =
     \<lparr>current_model = None, attached_image_path = None, last_assistant_index = None,
      model_running = True, histories = Map.empty, history = [], input_box = [],
      model_listbox = []\<rparr>"

text \<open>What the program shows or starts besides changing its state.\<close>

datatype effect =
    ShowInfo pystr pystr
  | ShowWarning pystr pystr
  | ShowError pystr pystr
  | StartStream pystr "message list"

definition CLEAR_TOKEN :: pystr where "CLEAR_TOKEN = [0xA7]"
definition START_TOKEN :: pystr where "START_TOKEN = [0x25B6]"
definition STOP_TOKEN :: pystr where "STOP_TOKEN = [0x25A0]"

text \<open>The truth value of an attribute that holds \<open>None\<close> or a string.\<close>

definition is_set :: "pystr option \<Rightarrow> bool" where
  "is_set x = (case x of None \<Rightarrow> False | Some s \<Rightarrow> s \<noteq> [])"

text \<open>\<open>self.histories.setdefault(model, []).append(e)\<close> and \<open>self.histories.get(model, [])\<close>\<close>

definition hist_append :: "(pystr \<rightharpoonup> entry list) \<Rightarrow> pystr \<Rightarrow> entry \<Rightarrow> (pystr \<rightharpoonup> entry list)" where
  "hist_append h m e = h(m \<mapsto> (case h m of None \<Rightarrow> [] | Some es \<Rightarrow> es) @ [e])"

definition turns_for :: "(pystr \<rightharpoonup> entry list) \<Rightarrow> pystr \<Rightarrow> entry list" where
  "turns_for h m = (case h m of None \<Rightarrow> [] | Some es \<Rightarrow> es)"

text \<open>
  The text widget: \<open>get("1.0", "end-1c")\<close> returns the characters (an embedded image
  has none), \<open>insert("end", s)\<close> appends, \<open>index("end-1c")\<close> is the position after
  the last item.
\<close>

definition widget_text :: "witem list \<Rightarrow> pystr" where
  "widget_text w = [c. Ch c \<leftarrow> w]"

definition insert_end :: "witem list \<Rightarrow> pystr \<Rightarrow> witem list" where
  "insert_end w s = w @ map Ch s"

definition sep_for :: "witem list \<Rightarrow> pystr" where
  "sep_for w = (if strip (widget_text w) \<noteq> [] then [10, 10] else [])"

section \<open>ChatApp: history helpers\<close>

definition insert_user_text :: "app \<Rightarrow> pystr \<Rightarrow> app" where
  "insert_user_text a txt =
     a\<lparr>history := insert_end (history a) (sep_for (history a) @ ascii ''User: '' @ txt @ [10])\<rparr>"

definition insert_assistant_text :: "app \<Rightarrow> pystr \<Rightarrow> app" where
  "insert_assistant_text a txt =
     (let start_index = length (history a)
      in a\<lparr>history :=
             insert_end (history a) (sep_for (history a) @ ascii ''Assistant: '' @ txt @ [10]),
           last_assistant_index := Some start_index\<rparr>)"

definition append_user :: "app \<Rightarrow> pystr \<Rightarrow> bool \<Rightarrow> app" where
  "append_user a txt record_it =
     insert_user_text
       (case current_model a of
          None \<Rightarrow> a
        | Some m \<Rightarrow>
            if m \<noteq> [] \<and> record_it then a\<lparr>histories := hist_append (histories a) m (UserEntry txt)\<rparr>
            else a)
       txt"

definition append_assistant :: "app \<Rightarrow> pystr \<Rightarrow> bool \<Rightarrow> bool \<Rightarrow> app" where
  "append_assistant a txt placeholder record_it =
     (let a1 =
        (case current_model a of
           None \<Rightarrow> a
         | Some m \<Rightarrow>
             if m \<noteq> [] \<and> (record_it \<and> \<not> placeholder)
             then a\<lparr>histories := hist_append (histories a) m (AssistantEntry txt)\<rparr>
             else a)
      in if placeholder then
           (let start_index = length (history a1)
            in a1\<lparr>history :=
                    insert_end (history a1)
                      (sep_for (history a1) @ ascii ''Assistant: '' @ txt @ [10]),
                  last_assistant_index := Some start_index\<rparr>)
         else insert_assistant_text a1 txt)"

text \<open>
  \<open>append_image\<close>: the scaled picture itself is not modelled, only that one image item
  is embedded. The entry recorded carries \<open>self.attached_image_path\<close>.
\<close>

definition append_image :: "env \<Rightarrow> app \<Rightarrow> pystr option \<Rightarrow> bool \<Rightarrow> app" where
  "append_image E a caption record_it =
     (if \<not> pil_available E then a
      else
        (let w1 = insert_end (history a) (sep_for (history a)) @ [Img];
             w2 = (case caption of
                     None \<Rightarrow> insert_end w1 [10]
                   | Some c \<Rightarrow> if c \<noteq> [] then insert_end w1 ([10] @ c @ [10]) else insert_end w1 [10]);
             a1 = a\<lparr>history := w2\<rparr>
         in case (current_model a, attached_image_path a) of
              (Some m, Some path) \<Rightarrow>
                if m \<noteq> [] \<and> record_it \<and> path \<noteq> []
                then a1\<lparr>histories := hist_append (histories a1) m (ImageEntry path caption)\<rparr>
                else a1
            | _ \<Rightarrow> a1))"

section \<open>ChatApp: model listing and selection\<close>

text \<open>The worker of \<open>refresh_models\<close> and its \<open>update_list\<close>.\<close>

definition model_name :: "env \<Rightarrow> json \<Rightarrow> json" where
  "model_name E m =
     (case m of
        JStr s \<Rightarrow> m
      | JDict d \<Rightarrow> dict_get d (ascii ''name'')
      | _ \<Rightarrow> JStr (py_str E m))"

fun first_list_value :: "json list \<Rightarrow> json list option" where
  "first_list_value [] = None"
| "first_list_value (JList v # rest) = Some v"
| "first_list_value (x # rest) = first_list_value rest"

definition model_names :: "env \<Rightarrow> json \<Rightarrow> json list" where
  "model_names E models =
     (case models of
        JDict d \<Rightarrow>
          (case first_list_value (map snd d) of
             Some v \<Rightarrow> map (model_name E) v
           | None \<Rightarrow> [])
      | JList v \<Rightarrow> map (model_name E) v
      | _ \<Rightarrow> [JStr (ensure_str E (PyJson models))])"

definition refresh_models :: "env \<Rightarrow> app \<Rightarrow> app \<times> effect list" where
  "refresh_models E a =
     (case list_models E of
        Inl exc \<Rightarrow>
          (a, [ShowError (ascii ''Error'') (ascii ''Failed to list models:'' @ [10] @ exc_text E exc)])
      | Inr models \<Rightarrow>
          (a\<lparr>model_listbox := map (\<lambda>m. ensure_str E (PyJson m)) (model_names E models)\<rparr>, []))"

text \<open>\<open>caption or "Image"\<close>\<close>

definition str_or :: "pystr option \<Rightarrow> pystr \<Rightarrow> pystr" where
  "str_or x dflt = (case x of None \<Rightarrow> dflt | Some s \<Rightarrow> if s \<noteq> [] then s else dflt)"

text \<open>\<open>self.model_listbox.get(i)\<close>: the entry at index \<open>i\<close>, the empty string beyond the end.\<close>

definition listbox_get :: "pystr list \<Rightarrow> nat \<Rightarrow> pystr" where
  "listbox_get lb i = (if i < length lb then lb ! i else [])"

text \<open>
  \<open>on_model_select\<close>, given \<open>self.model_listbox.curselection()\<close>. An entry of the
  model is drawn again by \<open>render_entry\<close>, the body of the loop; an image that Pillow
  cannot open is replaced by its caption. The label that names the model is not
  modelled.
\<close>

definition render_entry :: "env \<Rightarrow> entry \<Rightarrow> app \<Rightarrow> app" where
  "render_entry E e a =
     (case e of
        UserEntry t \<Rightarrow> insert_user_text a t
      | AssistantEntry t \<Rightarrow> insert_assistant_text a t
      | ImageEntry path caption \<Rightarrow>
          if pil_available E \<and> path \<noteq> [] then
            (if image_opens E path then append_image E a caption False
             else insert_user_text a (str_or caption (ascii ''Image'')))
          else a)"

definition on_model_select :: "env \<Rightarrow> nat list \<Rightarrow> app \<Rightarrow> app" where
  "on_model_select E sel a =
     (case sel of
        [] \<Rightarrow> a
      | i # _ \<Rightarrow>
          (let model = listbox_get (model_listbox a) i;
               a1 = a\<lparr>current_model := Some model, history := []\<rparr>;
               entries = turns_for (histories a1) model;
               a2 = fold (render_entry E) entries a1
           in a2\<lparr>last_assistant_index := None\<rparr>))"

section \<open>ChatApp: special tokens and sending\<close>

definition handle_special_token :: "app \<Rightarrow> pystr \<Rightarrow> app \<times> effect list" where
  "handle_special_token a token =
     (if token = CLEAR_TOKEN then
        (case current_model a of
           None \<Rightarrow>
             (a, [ShowInfo (ascii ''Clear'') (ascii ''No model selected to clear history for.'')])
         | Some m \<Rightarrow>
             if m = [] then
               (a, [ShowInfo (ascii ''Clear'') (ascii ''No model selected to clear history for.'')])
             else
               (a\<lparr>history := [],
                  histories := (if histories a m \<noteq> None then (histories a)(m \<mapsto> [])
                                else histories a)\<rparr>,
                [ShowInfo (ascii ''Clear'') (ascii ''Cleared history for model: '' @ m)]))
      else if token = START_TOKEN then
        (if model_running a then
           (a, [ShowInfo (ascii ''Model'') (ascii ''Model already running.'')])
         else
           (a\<lparr>model_running := True\<rparr>, [ShowInfo (ascii ''Model'') (ascii ''Model started.'')]))
      else if token = STOP_TOKEN then
        (if \<not> model_running a then
           (a, [ShowInfo (ascii ''Model'') (ascii ''Model already stopped.'')])
         else
           (a\<lparr>model_running := False\<rparr>,
            [ShowInfo (ascii ''Model'')
               (ascii ''Model stopped. Sending messages disabled until start.'')]))
      else (a, []))"

definition system_prompt :: message where
  "system_prompt =
     \<lparr>role = ascii ''system'',
      content =
        ascii ''You are an assistant that describes images.'' @ [10] @
        ascii ''When a user message contains an attached image, '' @
        ascii ''treat that image as the primary content.'' @ [10] @
        ascii ''Do not mention upload mechanisms.'' @ [10] @
        ascii ''Only describe visible content.'',
      images = None\<rparr>"

text \<open>\<open>self.input_box.get_text()\<close>\<close>

definition get_text :: "app \<Rightarrow> pystr" where
  "get_text a = strip (input_box a)"

text \<open>
  The part of \<open>on_send\<close> after its checks: the request is built (reading the attached
  image may fail), the user turn is recorded and shown, the input is cleared and the
  worker thread is started with the model that is current now.
\<close>

datatype attachment = NoImage | Unreadable | Encoded pystr

definition read_attachment :: "env \<Rightarrow> app \<Rightarrow> attachment" where
  "read_attachment E a =
     (case attached_image_path a of
        None \<Rightarrow> NoImage
      | Some path \<Rightarrow>
          if path = [] then NoImage
          else (case read_file E path of
                  None \<Rightarrow> Unreadable
                | Some img_bytes \<Rightarrow> Encoded (b64encode E img_bytes)))"

definition send_message :: "env \<Rightarrow> app \<Rightarrow> pystr \<Rightarrow> pystr \<Rightarrow> app \<times> effect list" where
  "send_message E a model user_text =
     (case read_attachment E a of
        Unreadable \<Rightarrow> (a, [ShowError (ascii ''Image Error'') (exc_text E IOError)])
      | att \<Rightarrow>
          (let user_msg =
                 \<lparr>role = ascii ''user'', content = user_text,
                  images = (case att of Encoded encoded \<Rightarrow> Some [encoded] | _ \<Rightarrow> None)\<rparr>;
               messages = [system_prompt, user_msg];
               a1 = (if user_text \<noteq> [] then append_user a user_text True
                     else if is_set (attached_image_path a)
                     then append_user a (ascii ''Sent an image'') True
                     else a)
           in (a1\<lparr>input_box := [], attached_image_path := None\<rparr>,
               [StartStream model messages])))"

definition on_send :: "env \<Rightarrow> app \<Rightarrow> app \<times> effect list" where
  "on_send E a =
     (case current_model a of
        None \<Rightarrow>
          (a, [ShowWarning (ascii ''No model'') (ascii ''Select a model from the left before sending.'')])
      | Some model \<Rightarrow>
          if model = [] then
            (a, [ShowWarning (ascii ''No model'')
                   (ascii ''Select a model from the left before sending.'')])
          else
            (let user_text = get_text a
             in if user_text = [] \<and> \<not> is_set (attached_image_path a) then
                  (a, [ShowWarning (ascii ''Empty'') (ascii ''Write a message or attach an image.'')])
                else if user_text \<in> {CLEAR_TOKEN, START_TOKEN, STOP_TOKEN} \<and>
                        \<not> is_set (attached_image_path a) then
                  (case handle_special_token a user_text of
                     (a1, shown) \<Rightarrow> (a1\<lparr>input_box := []\<rparr>, shown))
                else if \<not> model_running a then
                  (a, [ShowWarning (ascii ''Model stopped'')
                         (ascii ''Model is stopped. Press '' @ START_TOKEN @ ascii '' to start it.'')])
                else send_message E a model user_text))"

section \<open>ChatApp: streaming\<close>

text \<open>
  \<open>s.rfind(sub)\<close>: the highest index at which \<open>sub\<close> occurs in \<open>s\<close>, \<open>None\<close> for
  Python's \<open>-1\<close>.
\<close>

definition rfind :: "pystr \<Rightarrow> pystr \<Rightarrow> nat option" where
  "rfind s sub =
     (case filter (\<lambda>i. take (length sub) (drop i s) = sub) (rev [0..<Suc (length s - length sub)]) of
        [] \<Rightarrow> None
      | i # _ \<Rightarrow> Some i)"

text \<open>
  The search for the last assistant block that \<open>update_block\<close> falls back to when there
  is no index, or when deleting from the index raises. Of the widget's operations only
  this deletion is taken to raise, so the outer handler of \<open>update_block\<close>, which only
  locks the widget again, has no branch here.
\<close>

definition cut_last_assistant :: "app \<Rightarrow> app" where
  "cut_last_assistant a =
     (let all_text = widget_text (history a);
          idx = (case rfind all_text ([10, 10] @ ascii ''Assistant:'') of
                   None \<Rightarrow> rfind all_text (ascii ''Assistant:'')
                 | Some i \<Rightarrow> Some i)
      in case idx of
           None \<Rightarrow> a
         | Some i \<Rightarrow> a\<lparr>history := insert_end [] (take i all_text)\<rparr>)"

definition update_block :: "env \<Rightarrow> pystr \<Rightarrow> app \<Rightarrow> app" where
  "update_block E acc_text a =
     (let a1 =
        (case last_assistant_index a of
           Some i \<Rightarrow>
             (case text_delete E (history a) i of
                Some w \<Rightarrow> a\<lparr>history := w\<rparr>
              | None \<Rightarrow> cut_last_assistant a)
         | None \<Rightarrow> cut_last_assistant a);
          start_index = length (history a1)
      in a1\<lparr>history :=
              insert_end (history a1)
                (sep_for (history a1) @ ascii ''Assistant: '' @ acc_text @ [10]),
            last_assistant_index := Some start_index\<rparr>)"

text \<open>
  The callbacks that the worker thread hands to the user interface with
  \<open>self.after(0, ...)\<close>; Tk runs them in the order in which they were handed over.
\<close>

datatype ui_task = ShowPlaceholder | UpdateBlock pystr | ShowChatFailed py_error

definition run_task :: "env \<Rightarrow> ui_task \<Rightarrow> app \<Rightarrow> app \<times> effect list" where
  "run_task E t a =
     (case t of
        ShowPlaceholder \<Rightarrow> (append_assistant a (ascii ''...'') True False, [])
      | UpdateBlock acc_text \<Rightarrow> (update_block E acc_text a, [])
      | ShowChatFailed exc \<Rightarrow>
          (a, [ShowError (ascii ''Error'') (ascii ''Chat failed:'' @ [10] @ exc_text E exc)]))"

fun run_tasks :: "env \<Rightarrow> ui_task list \<Rightarrow> app \<Rightarrow> app" where
  "run_tasks E [] a = a"
| "run_tasks E (t # ts) a = run_tasks E ts (fst (run_task E t a))"

text \<open>
  The loop of \<open>_stream_response\<close> over what \<open>chat_stream\<close> does: the tasks handed over,
  and the accumulated text at the end of the stream or the exception that ended it.
\<close>

fun stream_loop :: "env \<Rightarrow> pystr \<Rightarrow> chunk list \<Rightarrow> ui_task list \<times> (py_error + pystr)" where
  "stream_loop E acc [] = ([], Inr acc)"
| "stream_loop E acc (Raised exc # rest) = ([], Inl exc)"
| "stream_loop E acc (Chunk c # rest) =
     (let acc' = acc @ ensure_str E (PyJson (JStr c));
          (tasks, res) = stream_loop E acc' rest
      in (UpdateBlock acc' # tasks, res))"

text \<open>
  What the worker does once the loop is over, on the state of the application at that
  moment: the commit of the reply, or the error task.
\<close>

definition stream_finish :: "(py_error + pystr) \<Rightarrow> app \<Rightarrow> app \<times> ui_task list" where
  "stream_finish res a =
     (case res of
        Inl exc \<Rightarrow> (a, [ShowChatFailed exc])
      | Inr acc \<Rightarrow>
          (let final_text = strip acc
           in case current_model a of
                None \<Rightarrow> (a, [])
              | Some m \<Rightarrow>
                  if final_text \<noteq> [] \<and> m \<noteq> []
                  then (a\<lparr>histories := hist_append (histories a) m (AssistantEntry final_text)\<rparr>, [])
                  else (a, [])))"

text \<open>
  \<open>_stream_response(model, messages)\<close> for a stream during which the user interface
  changes neither \<open>current_model\<close> nor \<open>histories\<close>: the state after the worker, and
  all the tasks it handed over.
\<close>

definition stream_response :: "env \<Rightarrow> pystr \<Rightarrow> message list \<Rightarrow> app \<Rightarrow> app \<times> ui_task list" where
  "stream_response E model messages a =
     (case stream_loop E [] (chat_stream E model messages) of
        (tasks, res) \<Rightarrow>
          (case stream_finish res a of
             (a', last_tasks) \<Rightarrow> (a', ShowPlaceholder # tasks @ last_tasks)))"

text \<open>
  A send during whose stream the user selects another entry of the model list: \<open>on_send\<close>
  starts the worker, \<open>on_model_select\<close> runs while the worker reads the stream, and the
  worker finishes on the state it finds then.
\<close>

definition send_then_switch :: "env \<Rightarrow> nat list \<Rightarrow> app \<Rightarrow> app" where
  "send_then_switch E sel a =
     (case on_send E a of
        (a1, [StartStream model messages]) \<Rightarrow>
          fst (stream_finish (snd (stream_loop E [] (chat_stream E model messages)))
                 (on_model_select E sel a1))
      | (a1, _) \<Rightarrow> a1)"

section \<open>The documented behaviour, for comparison with the code\<close>

subsection \<open>The resolution order of the extractor\<close>

text \<open>
  The shape categories of the specification as an ordered chain of matchers over a JSON
  value. \<open>field_str d k\<close> is the string-valued field \<open>k\<close> of \<open>d\<close>; \<open>first_some\<close>
  takes the first matcher that matches. Step 3 of the specification speaks of "an
  embedded \<open>message\<close> (or \<open>msg\<close>) object" and of "every part's \<open>text\<close> or
  \<open>content\<close> string field". Both readings of these words are written down: the
  definitions ending in \<open>_spec\<close> read them as they stand (the first of the two fields
  that is an object, the first of the two fields that is a string, as in steps 2 and 4);
  the definitions ending in \<open>_py\<close> read "or" as Python's \<open>or\<close> (the second operand
  is taken when the first is absent or falsy: \<open>None\<close>, \<open>false\<close>, zero, empty).
\<close>

definition field_str :: "dict \<Rightarrow> pystr \<Rightarrow> pystr option" where
  "field_str d k = (case dict_get d k of JStr s \<Rightarrow> Some s | _ \<Rightarrow> None)"

fun first_some :: "'a option list \<Rightarrow> 'a option" where
  "first_some [] = None"
| "first_some (Some x # rest) = Some x"
| "first_some (None # rest) = first_some rest"

definition shape_direct :: "dict \<Rightarrow> pystr option" where
  "shape_direct d = first_some (map (field_str d) direct_keys)"

definition shape_delta :: "dict \<Rightarrow> pystr option" where
  "shape_delta d =
     (case dict_get d (ascii ''delta'') of
        JDict dl \<Rightarrow> first_some [field_str dl (ascii ''content''), field_str dl (ascii ''text'')]
      | _ \<Rightarrow> None)"

definition nested_content :: "dict \<Rightarrow> pystr \<Rightarrow> pystr option" where
  "nested_content c k =
     (case dict_get c k of JDict inner \<Rightarrow> field_str inner (ascii ''content'') | _ \<Rightarrow> None)"

definition shape_choice :: "json \<Rightarrow> pystr option" where
  "shape_choice ch =
     (case ch of
        JDict c \<Rightarrow>
          first_some
            [field_str c (ascii ''text''), nested_content c (ascii ''message''),
             nested_content c (ascii ''delta'')]
      | _ \<Rightarrow> None)"

definition shape_choices :: "dict \<Rightarrow> pystr option" where
  "shape_choices d =
     (case dict_get d (ascii ''choices'') of
        JList cs \<Rightarrow>
          if List.map_filter shape_choice cs = [] then None
          else Some (concat (List.map_filter shape_choice cs))
      | _ \<Rightarrow> None)"

text \<open>
  Step 3 as its words stand: the embedded object is \<open>message\<close> if that is an object,
  else \<open>msg\<close> if that is an object; a part contributes its \<open>text\<close> if that is a
  string, else its \<open>content\<close> if that is a string.
\<close>

definition part_text_spec :: "json \<Rightarrow> pystr option" where
  "part_text_spec p =
     (case p of
        JDict pd \<Rightarrow> first_some [field_str pd (ascii ''text''), field_str pd (ascii ''content'')]
      | _ \<Rightarrow> None)"

definition embedded_object_spec :: "dict \<Rightarrow> dict option" where
  "embedded_object_spec d =
     (case dict_get d (ascii ''message'') of
        JDict m \<Rightarrow> Some m
      | _ \<Rightarrow> (case dict_get d (ascii ''msg'') of JDict m \<Rightarrow> Some m | _ \<Rightarrow> None))"

definition shape_message_spec :: "dict \<Rightarrow> pystr option" where
  "shape_message_spec d =
     (case embedded_object_spec d of
        Some m \<Rightarrow>
          first_some
            [field_str m (ascii ''content''), field_str m (ascii ''text''),
             (case dict_get m (ascii ''content'') of
                JList ps \<Rightarrow>
                  if List.map_filter part_text_spec ps = [] then None
                  else Some (concat (List.map_filter part_text_spec ps))
              | _ \<Rightarrow> None)]
      | None \<Rightarrow> None)"

definition extract_chain_spec :: "json \<Rightarrow> pystr option" where
  "extract_chain_spec v =
     (case v of
        JStr s \<Rightarrow> Some s
      | JDict d \<Rightarrow>
          first_some [shape_direct d, shape_message_spec d, shape_delta d, shape_choices d]
      | _ \<Rightarrow> None)"

text \<open>Step 3 with Python's \<open>or\<close> in both places.\<close>

definition part_text_py :: "json \<Rightarrow> pystr option" where
  "part_text_py p =
     (case p of
        JDict pd \<Rightarrow>
          (case py_or (dict_get pd (ascii ''text'')) (dict_get pd (ascii ''content'')) of
             JStr s \<Rightarrow> Some s
           | _ \<Rightarrow> None)
      | _ \<Rightarrow> None)"

definition shape_message_py :: "dict \<Rightarrow> pystr option" where
  "shape_message_py d =
     (case py_or (dict_get d (ascii ''message'')) (dict_get d (ascii ''msg'')) of
        JDict m \<Rightarrow>
          first_some
            [field_str m (ascii ''content''), field_str m (ascii ''text''),
             (case dict_get m (ascii ''content'') of
                JList ps \<Rightarrow>
                  if List.map_filter part_text_py ps = [] then None
                  else Some (concat (List.map_filter part_text_py ps))
              | _ \<Rightarrow> None)]
      | _ \<Rightarrow> None)"

definition extract_chain_py :: "json \<Rightarrow> pystr option" where
  "extract_chain_py v =
     (case v of
        JStr s \<Rightarrow> Some s
      | JDict d \<Rightarrow>
          first_some [shape_direct d, shape_message_py d, shape_delta d, shape_choices d]
      | _ \<Rightarrow> None)"


subsection \<open>Streams and fragments\<close>

text \<open>
  The text of a raw line is what \<open>ensure_str\<close> makes of its bytes. \<open>loads_crashes\<close>
  holds of a line on whose text \<open>json.loads\<close> raises something else than
  \<open>JSONDecodeError\<close>; \<open>line_fragment\<close> is the fragment that any other non-empty line
  stands for.
\<close>

definition loads_crashes :: "env \<Rightarrow> bytes \<Rightarrow> bool" where
  "loads_crashes E raw =
     (case json_loads E (utf8_decode E raw) of
        Inl exc \<Rightarrow> exc \<noteq> JSONDecodeError
      | Inr obj \<Rightarrow> False)"

definition line_fragment :: "env \<Rightarrow> bytes \<Rightarrow> pystr" where
  "line_fragment E raw =
     (case json_loads E (utf8_decode E raw) of
        Inl exc \<Rightarrow> utf8_decode E raw
      | Inr obj \<Rightarrow>
          (case extract_text_from_obj obj of
             Inr (Some extracted) \<Rightarrow> extracted
           | _ \<Rightarrow> utf8_decode E raw))"

text \<open>The fragments a stream delivers before it ends or fails, and whether it fails.\<close>

fun delivered :: "chunk list \<Rightarrow> pystr list" where
  "delivered [] = []"
| "delivered (Chunk c # rest) = c # delivered rest"
| "delivered (Raised exc # rest) = []"

fun stream_failed :: "chunk list \<Rightarrow> bool" where
  "stream_failed [] = False"
| "stream_failed (Chunk c # rest) = stream_failed rest"
| "stream_failed (Raised exc # rest) = True"

text \<open>
  A transcript followed by one assistant block with the given text, as the widget holds
  it: the separator that the transcript calls for, the label, the text and a newline.
\<close>

definition with_assistant_block :: "witem list \<Rightarrow> pystr \<Rightarrow> witem list" where
  "with_assistant_block pre shown =
     pre @ map Ch (sep_for pre @ ascii ''Assistant: '' @ shown @ [10])"

subsection \<open>Model identifiers\<close>

text \<open>
  The identifier of one entry of a model listing: the plain string, the \<open>name\<close> field of
  an object, otherwise the string representation.
\<close>

definition model_identifier :: "env \<Rightarrow> json \<Rightarrow> pystr" where
  "model_identifier E m =
     (case m of
        JStr s \<Rightarrow> s
      | JDict obj \<Rightarrow> ensure_str E (PyJson (dict_get obj (ascii ''name'')))
      | _ \<Rightarrow> py_str E m)"

subsection \<open>An environment for concrete runs\<close>

text \<open>
  A server that answers every chat request with status 200 and the given lines, and the
  model listing with the given reply. An ASCII byte is decoded as itself and any other
  byte as U+FFFD, which is what Python does with a byte that cannot start a UTF-8
  sequence. The JSON decoder knows the lines \<open>{}\<close> and \<open>"Hel"\<close>, raises
  \<open>RecursionError\<close> on a thousand opening brackets and rejects everything else;
  deleting from an index to the end of the widget keeps the items before the index.
\<close>

definition demo_decode :: "bytes \<Rightarrow> pystr" where
  "demo_decode raw = map (\<lambda>c. if (of_char c :: nat) < 128 then of_char c else 0xFFFD) raw"

definition demo_loads :: "pystr \<Rightarrow> py_error + json" where
  "demo_loads s =
     (if length s = 1000 \<and> list_all (\<lambda>c. c = 91) s then Inl RecursionError
      else if s = ascii ''{}'' then Inr (JDict [])
      else if s = [34] @ ascii ''Hel'' @ [34] then Inr (JStr (ascii ''Hel''))
      else Inl JSONDecodeError)"

definition demo_env :: "line_event list \<Rightarrow> tags_response \<Rightarrow> env" where
  "demo_env body tags =
     \<lparr>base_url = ascii ''http://localhost:11434'',
      utf8_decode = demo_decode,
      py_str = (\<lambda>v. ascii ''?''),
      exc_text = (\<lambda>e. ascii ''error''),
      json_loads = demo_loads,
      sha256_hex = (\<lambda>b. ascii ''00''),
      b64encode = map of_char,
      read_file = (\<lambda>p. if p = ascii ''a.png'' then Some ''img'' else None),
      get_tags = tags,
      post_chat = (\<lambda>model messages. Response 200 body),
      pil_available = False,
      image_opens = (\<lambda>p. False),
      text_delete = (\<lambda>w i. Some (take i w))\<rparr>"

text \<open>A session with two models listed, the first one selected.\<close>

definition demo_app :: "pystr \<Rightarrow> app" where
  "demo_app typed =
     init_app\<lparr>model_listbox := [ascii ''m1'', ascii ''m2''], current_model := Some (ascii ''m1''),
       input_box := typed\<rparr>"

section \<open>Properties of the extractor\<close>

lemma ascii_eq_iff: "ascii s = ascii t \<longleftrightarrow> s = t"
  unfolding ascii_def by (simp add: inj_map_eq_map inj_on_def)

lemma ascii_Nil_iff: "ascii s = [] \<longleftrightarrow> s = []"
  by (simp add: ascii_def)

lemma first_some_Cons:
  "first_some (x # xs) = (case x of Some y \<Rightarrow> Some y | None \<Rightarrow> first_some xs)"
  by (cases x) simp_all

lemma first_some_index:
  "i < length xs \<Longrightarrow> xs ! i = Some v \<Longrightarrow> (\<forall>j<i. xs ! j = None) \<Longrightarrow> first_some xs = Some v"
proof (induction xs arbitrary: i)
  case Nil
  then show ?case by simp
next
  case (Cons x xs)
  show ?case
  proof (cases i)
    case 0
    with Cons.prems show ?thesis by simp
  next
    case (Suc n)
    with Cons.prems have x: "x = None" by auto
    from Suc Cons.prems have "n < length xs" "xs ! n = Some v" "\<forall>j<n. xs ! j = None" by auto
    with Cons.IH x show ?thesis by simp
  qed
qed

lemma first_some_None: "(\<forall>x\<in>set xs. x = None) \<Longrightarrow> first_some xs = None"
  by (induction xs) auto

lemma field_str_Some: "field_str d k = Some v \<longleftrightarrow> dict_get d k = JStr v"
  by (simp add: field_str_def split: json.splits)

lemma field_str_None: "field_str d k = None \<longleftrightarrow> \<not> is_str (dict_get d k)"
  by (simp add: field_str_def split: json.splits)

text \<open>A guarded subscript never raises: the guard is the membership test.\<close>

lemma str_at_eq: "str_at d k = Inr (field_str d k)"
  by (simp add: str_at_def field_str_def contains_def subscript_def dict_get_def
      split: option.splits json.splits)

lemma direct_fields_eq: "direct_fields d ks = first_some (map (field_str d) ks)"
  by (induction ks) (simp_all add: field_str_def split: json.splits)

lemma msg_fields_eq: "msg_fields m ks = Inr (first_some (map (field_str m) ks))"
  by (induction ks) (simp_all add: str_at_eq or_else_def first_some_Cons split: option.splits)

lemma str_parts_part_values: "str_parts (part_values ps) = List.map_filter part_text_py ps"
proof (induction ps)
  case Nil
  show ?case by (simp add: str_parts_def part_values_def)
next
  case (Cons p ps)
  then show ?case
    by (cases p; simp add: str_parts_def part_values_def part_text_py_def split: json.splits)
qed

lemma msg_parts_eq:
  "msg_parts m =
     Inr (case dict_get m (ascii ''content'') of
            JList ps \<Rightarrow>
              if List.map_filter part_text_py ps = [] then None
              else Some (concat (List.map_filter part_text_py ps))
          | _ \<Rightarrow> None)"
  by (simp add: msg_parts_def contains_def subscript_def dict_get_def str_parts_part_values Let_def
      split: option.splits json.splits)

lemma from_message_eq: "from_message d = Inr (shape_message_py d)"
  by (simp add: from_message_def shape_message_py_def msg_fields_eq msg_parts_eq or_else_def
      first_some_Cons split: json.splits option.splits)

lemma from_delta_eq: "from_delta d = Inr (shape_delta d)"
  by (simp add: from_delta_def shape_delta_def str_at_eq or_else_def first_some_Cons
      split: json.splits option.splits)

lemma choice_text_eq: "choice_text ch = Inr (shape_choice ch)"
  by (simp add: choice_text_def shape_choice_def choice_message_def choice_delta_def
      nested_content_def str_at_eq or_else_def first_some_Cons split: json.splits option.splits)

lemma choice_texts_eq: "choice_texts cs = Inr (List.map_filter shape_choice cs)"
  by (induction cs) (simp_all add: choice_text_eq split: option.splits)

lemma from_choices_eq: "from_choices d = Inr (shape_choices d)"
  by (simp add: from_choices_def shape_choices_def choice_texts_eq split: json.splits)

text \<open>The code computes the documented chain, and no block of it raises.\<close>

lemma extract_text_refines: "extract_text_from_obj v = Inr (extract_chain_py v)"
  by (cases v)
    (simp_all add: extract_chain_py_def or_else_def direct_fields_eq shape_direct_def
      from_message_eq from_delta_eq from_choices_eq first_some_Cons split: option.splits)

text \<open>
  C3, as the code has it. On every JSON value the extractor returns what the chain of
  matchers returns in which "or" is Python's \<open>or\<close>, the first match winning. In
  particular: a string is returned itself. For an object, the first string-valued field
  among \<open>response\<close>, \<open>text\<close>, \<open>generated_text\<close>, \<open>output_text\<close>, \<open>content\<close> is
  returned. If there is none, the value of \<open>message\<close>, or the value of \<open>msg\<close> when
  that of \<open>message\<close> is absent or falsy, is inspected if it is an object: its
  \<open>content\<close> string is returned, else its \<open>text\<close> string, else, when \<open>content\<close> is
  a list of parts of which at least one contributes, the concatenation in list order and
  without separator of what the parts contribute. A part that is an object contributes
  its \<open>text\<close> value, or its \<open>content\<close> value when that of \<open>text\<close> is absent or
  falsy, if that value is a string (\<open>part_text_py\<close>); every other part is skipped.
\<close>

theorem extract_text_resolution_order:
  "extract_text_from_obj x = Inr (extract_chain_py x) \<and>
   extract_text_from_obj (JStr s) = Inr (Some s) \<and>
   (i < length direct_keys \<and> dict_get obj (direct_keys ! i) = JStr v \<and>
      (\<forall>j<i. \<not> is_str (dict_get obj (direct_keys ! j))) \<longrightarrow>
      extract_text_from_obj (JDict obj) = Inr (Some v)) \<and>
   ((\<forall>k\<in>set direct_keys. \<not> is_str (dict_get obj k)) \<and>
      py_or (dict_get obj (ascii ''message'')) (dict_get obj (ascii ''msg'')) = JDict m \<longrightarrow>
      (dict_get m (ascii ''content'') = JStr v \<longrightarrow>
         extract_text_from_obj (JDict obj) = Inr (Some v)) \<and>
      (\<not> is_str (dict_get m (ascii ''content'')) \<and> dict_get m (ascii ''text'') = JStr v \<longrightarrow>
         extract_text_from_obj (JDict obj) = Inr (Some v)) \<and>
      (dict_get m (ascii ''content'') = JList ps \<and> \<not> is_str (dict_get m (ascii ''text'')) \<and>
         List.map_filter part_text_py ps \<noteq> [] \<longrightarrow>
         extract_text_from_obj (JDict obj) = Inr (Some (concat (List.map_filter part_text_py ps)))))"
proof (intro conjI impI)
  show "extract_text_from_obj x = Inr (extract_chain_py x)" by (rule extract_text_refines)
next
  show "extract_text_from_obj (JStr s) = Inr (Some s)" by simp
next
  assume h: "i < length direct_keys \<and> dict_get obj (direct_keys ! i) = JStr v \<and>
      (\<forall>j<i. \<not> is_str (dict_get obj (direct_keys ! j)))"
  have "first_some (map (field_str obj) direct_keys) = Some v"
    using h by (intro first_some_index [where i = i]) (auto simp: field_str_Some field_str_None)
  then show "extract_text_from_obj (JDict obj) = Inr (Some v)"
    by (simp add: extract_text_refines extract_chain_py_def shape_direct_def)
next
  assume h: "(\<forall>k\<in>set direct_keys. \<not> is_str (dict_get obj k)) \<and>
      py_or (dict_get obj (ascii ''message'')) (dict_get obj (ascii ''msg'')) = JDict m"
  have d: "shape_direct obj = None"
    unfolding shape_direct_def using h by (intro first_some_None) (auto simp: field_str_None)
  have e: "extract_text_from_obj (JDict obj) =
      Inr (case shape_message_py obj of Some s \<Rightarrow> Some s
           | None \<Rightarrow> first_some [shape_delta obj, shape_choices obj])"
    by (simp add: extract_text_refines extract_chain_py_def d first_some_Cons)
  {
    assume "dict_get m (ascii ''content'') = JStr v"
    then have "shape_message_py obj = Some v"
      using h by (simp add: shape_message_py_def field_str_def)
    then show "extract_text_from_obj (JDict obj) = Inr (Some v)" by (subst e) simp
  next
    assume "\<not> is_str (dict_get m (ascii ''content'')) \<and> dict_get m (ascii ''text'') = JStr v"
    then have "shape_message_py obj = Some v"
      using h by (auto simp: shape_message_py_def field_str_def first_some_Cons split: json.splits)
    then show "extract_text_from_obj (JDict obj) = Inr (Some v)" by (subst e) simp
  next
    assume "dict_get m (ascii ''content'') = JList ps \<and> \<not> is_str (dict_get m (ascii ''text'')) \<and>
         List.map_filter part_text_py ps \<noteq> []"
    then have "shape_message_py obj = Some (concat (List.map_filter part_text_py ps))"
      using h by (auto simp: shape_message_py_def field_str_def first_some_Cons split: json.splits)
    then show "extract_text_from_obj (JDict obj) = Inr (Some (concat (List.map_filter part_text_py ps)))"
      by (subst e) simp
  }
qed

theorem extract_text_resolution_order_witness:
  "extract_text_from_obj
     (JDict [(ascii ''text'', JStr (ascii ''a'')), (ascii ''response'', JInt 1),
             (ascii ''content'', JStr (ascii ''b''))]) = Inr (Some (ascii ''a'')) \<and>
   extract_text_from_obj
     (JDict [(ascii ''msg'', JDict [(ascii ''content'', JStr (ascii ''c''))])]) =
     Inr (Some (ascii ''c'')) \<and>
   extract_text_from_obj
     (JDict [(ascii ''message'', JDict [(ascii ''content'', JInt 0), (ascii ''text'', JStr (ascii ''t''))])]) =
     Inr (Some (ascii ''t'')) \<and>
   extract_text_from_obj
     (JDict [(ascii ''message'',
              JDict [(ascii ''content'',
                      JList [JDict [(ascii ''text'', JStr (ascii ''Hel''))], JInt 5,
                             JDict [(ascii ''content'', JStr (ascii ''lo''))]])])]) =
     Inr (Some (ascii ''Hello''))"
proof -
  let ?o1 = "[(ascii ''text'', JStr (ascii ''a'')), (ascii ''response'', JInt 1),
             (ascii ''content'', JStr (ascii ''b''))]"
  let ?m2 = "[(ascii ''content'', JStr (ascii ''c''))]"
  let ?m3 = "[(ascii ''content'', JInt 0), (ascii ''text'', JStr (ascii ''t''))]"
  let ?ps = "[JDict [(ascii ''text'', JStr (ascii ''Hel''))], JInt 5,
              JDict [(ascii ''content'', JStr (ascii ''lo''))]]"
  let ?m4 = "[(ascii ''content'', JList ?ps)]"
  have k: "direct_keys ! Suc 0 = ascii ''text''" "direct_keys ! 0 = ascii ''response''"
    "length direct_keys = 5"
    by (simp_all add: direct_keys_def)
  have h1: "1 < length direct_keys \<and> dict_get ?o1 (direct_keys ! 1) = JStr (ascii ''a'') \<and>
      (\<forall>j<1. \<not> is_str (dict_get ?o1 (direct_keys ! j)))"
    by (simp add: k dict_get_def ascii_eq_iff)
  have c1: "extract_text_from_obj (JDict ?o1) = Inr (Some (ascii ''a''))"
    using extract_text_resolution_order [where i = 1 and obj = ?o1 and v = "ascii ''a''"] h1
    by blast
  have h2: "(\<forall>k\<in>set direct_keys. \<not> is_str (dict_get [(ascii ''msg'', JDict ?m2)] k)) \<and>
      py_or (dict_get [(ascii ''msg'', JDict ?m2)] (ascii ''message''))
        (dict_get [(ascii ''msg'', JDict ?m2)] (ascii ''msg'')) = JDict ?m2"
    by (simp add: direct_keys_def dict_get_def ascii_eq_iff py_or_def)
  have g2: "dict_get ?m2 (ascii ''content'') = JStr (ascii ''c'')"
    by (simp add: dict_get_def)
  have c2: "extract_text_from_obj (JDict [(ascii ''msg'', JDict ?m2)]) = Inr (Some (ascii ''c''))"
    using extract_text_resolution_order
      [where obj = "[(ascii ''msg'', JDict ?m2)]" and m = ?m2 and v = "ascii ''c''"] h2 g2
    by blast
  have h3: "(\<forall>k\<in>set direct_keys. \<not> is_str (dict_get [(ascii ''message'', JDict ?m3)] k)) \<and>
      py_or (dict_get [(ascii ''message'', JDict ?m3)] (ascii ''message''))
        (dict_get [(ascii ''message'', JDict ?m3)] (ascii ''msg'')) = JDict ?m3"
    by (simp add: direct_keys_def dict_get_def ascii_eq_iff py_or_def)
  have g3: "\<not> is_str (dict_get ?m3 (ascii ''content'')) \<and>
      dict_get ?m3 (ascii ''text'') = JStr (ascii ''t'')"
    by (simp add: dict_get_def ascii_eq_iff)
  have c3: "extract_text_from_obj (JDict [(ascii ''message'', JDict ?m3)]) = Inr (Some (ascii ''t''))"
    using extract_text_resolution_order
      [where obj = "[(ascii ''message'', JDict ?m3)]" and m = ?m3 and v = "ascii ''t''"] h3 g3
    by blast
  have h4: "(\<forall>k\<in>set direct_keys. \<not> is_str (dict_get [(ascii ''message'', JDict ?m4)] k)) \<and>
      py_or (dict_get [(ascii ''message'', JDict ?m4)] (ascii ''message''))
        (dict_get [(ascii ''message'', JDict ?m4)] (ascii ''msg'')) = JDict ?m4"
    by (simp add: direct_keys_def dict_get_def ascii_eq_iff py_or_def)
  have p4: "List.map_filter part_text_py ?ps = [ascii ''Hel'', ascii ''lo'']"
    by (simp add: List.map_filter_simps part_text_py_def dict_get_def py_or_def ascii_eq_iff
        ascii_Nil_iff)
  have g4: "dict_get ?m4 (ascii ''content'') = JList ?ps \<and>
      \<not> is_str (dict_get ?m4 (ascii ''text'')) \<and> List.map_filter part_text_py ?ps \<noteq> []"
    unfolding p4 by (simp add: dict_get_def ascii_eq_iff)
  have c4: "extract_text_from_obj (JDict [(ascii ''message'', JDict ?m4)]) =
      Inr (Some (concat (List.map_filter part_text_py ?ps)))"
    using extract_text_resolution_order
      [where obj = "[(ascii ''message'', JDict ?m4)]" and m = ?m4 and ps = ?ps] h4 g4
    by blast
  have e4: "concat (List.map_filter part_text_py ?ps) = ascii ''Hello''"
    unfolding p4 by (simp add: ascii_def)
  show ?thesis using c1 c2 c3 c4 e4 by simp
qed

text \<open>
  The claim C3 as stated fails on the code. In the first object \<open>message\<close> is a string
  and \<open>msg\<close> is an embedded object with a \<open>content\<close> string: read as it stands, the
  claim has that object inspected and \<open>c\<close> returned, and the code returns nothing. In
  the second object the only part has a number under \<open>text\<close> and the string \<open>x\<close>
  under \<open>content\<close>: read as it stands, the claim has \<open>x\<close> returned, and the code skips
  the part and returns nothing.
\<close>

theorem extract_text_resolution_order_counterexample:
  "extract_chain_spec
     (JDict [(ascii ''message'', JStr (ascii ''x'')),
             (ascii ''msg'', JDict [(ascii ''content'', JStr (ascii ''c''))])]) =
     Some (ascii ''c'') \<and>
   extract_text_from_obj
     (JDict [(ascii ''message'', JStr (ascii ''x'')),
             (ascii ''msg'', JDict [(ascii ''content'', JStr (ascii ''c''))])]) =
     Inr None \<and>
   extract_chain_spec
     (JDict [(ascii ''message'',
              JDict [(ascii ''content'',
                      JList [JDict [(ascii ''text'', JInt 7),
                                    (ascii ''content'', JStr (ascii ''x''))]])])]) =
     Some (ascii ''x'') \<and>
   extract_text_from_obj
     (JDict [(ascii ''message'',
              JDict [(ascii ''content'',
                      JList [JDict [(ascii ''text'', JInt 7),
                                    (ascii ''content'', JStr (ascii ''x''))]])])]) =
     Inr None"
proof -
  let ?v1 = "[(ascii ''message'', JStr (ascii ''x'')),
              (ascii ''msg'', JDict [(ascii ''content'', JStr (ascii ''c''))])]"
  let ?p = "JDict [(ascii ''text'', JInt 7), (ascii ''content'', JStr (ascii ''x''))]"
  let ?v2 = "[(ascii ''message'', JDict [(ascii ''content'', JList [?p])])]"
  have d: "shape_direct ?v1 = None" "shape_direct ?v2 = None"
    by (simp_all add: shape_direct_def direct_keys_def field_str_def dict_get_def ascii_eq_iff)
  have o: "shape_delta ?v1 = None" "shape_choices ?v1 = None"
    "shape_delta ?v2 = None" "shape_choices ?v2 = None"
    by (simp_all add: shape_delta_def shape_choices_def dict_get_def ascii_eq_iff)
  have s1: "shape_message_spec ?v1 = Some (ascii ''c'')"
    by (simp add: shape_message_spec_def embedded_object_spec_def field_str_def dict_get_def
        ascii_eq_iff)
  have c1: "shape_message_py ?v1 = None"
    by (simp add: shape_message_py_def py_or_def dict_get_def ascii_eq_iff ascii_Nil_iff)
  have ps: "part_text_spec ?p = Some (ascii ''x'')" "part_text_py ?p = None"
    by (simp_all add: part_text_spec_def part_text_py_def field_str_def py_or_def dict_get_def
        ascii_eq_iff)
  have s2: "shape_message_spec ?v2 = Some (ascii ''x'')"
    by (simp add: shape_message_spec_def embedded_object_spec_def field_str_def dict_get_def
        ascii_eq_iff List.map_filter_simps ps)
  have c2: "shape_message_py ?v2 = None"
    by (simp add: shape_message_py_def py_or_def field_str_def dict_get_def ascii_eq_iff
        List.map_filter_simps ps)
  show ?thesis
    by (simp add: extract_text_refines extract_chain_py_def extract_chain_spec_def d o s1 c1 s2 c2
        del: extract_text_from_obj.simps)
qed



section \<open>Properties of the client\<close>

lemma stream_lines_Line:
  "\<not> loads_crashes E raw \<Longrightarrow>
   stream_lines E (Line raw # rest) =
     (if raw = [] then stream_lines E rest
      else Chunk (line_fragment E raw) # stream_lines E rest)"
  by (auto simp: loads_crashes_def line_fragment_def ensure_str_def Let_def extract_text_refines
      split: sum.splits option.splits)

lemma stream_lines_empty: "stream_lines E (Line [] # rest) = stream_lines E rest"
  by simp

lemma stream_lines_map_Line:
  "(\<forall>raw\<in>set raws. raw \<noteq> [] \<longrightarrow> \<not> loads_crashes E raw) \<Longrightarrow>
   stream_lines E (map Line raws) =
     map (\<lambda>raw. Chunk (line_fragment E raw)) (filter (\<lambda>raw. raw \<noteq> []) raws)"
proof (induction raws)
  case Nil
  show ?case by simp
next
  case (Cons raw raws)
  show ?case
  proof (cases "raw = []")
    case True
    with Cons show ?thesis by simp
  next
    case False
    with Cons.prems have "\<not> loads_crashes E raw" by simp
    with Cons False show ?thesis
      by (simp add: stream_lines_Line del: stream_lines.simps(3))
  qed
qed

text \<open>
  C5, as the code has it. Take raw lines on none of which \<open>json.loads\<close> raises anything
  but \<open>JSONDecodeError\<close>. Every empty line is skipped, and every other line emits
  exactly one fragment, in order: the text of the line (its bytes decoded as UTF-8 with
  replacement of what cannot be decoded) when that text is not JSON or when the extractor
  finds nothing in the decoded value, and the extracted text otherwise.
\<close>

theorem chat_stream_fragments:
  "((\<forall>raw\<in>set raws. raw \<noteq> [] \<longrightarrow> \<not> loads_crashes E raw) \<longrightarrow>
      stream_lines E (map Line raws) =
        map (\<lambda>raw. Chunk (line_fragment E raw)) (filter (\<lambda>raw. raw \<noteq> []) raws) \<and>
      (post_chat E model messages = Response st (map Line raws) \<and> (st < 400 \<or> 600 \<le> st) \<longrightarrow>
         chat_stream E model messages =
           map (\<lambda>raw. Chunk (line_fragment E raw)) (filter (\<lambda>raw. raw \<noteq> []) raws))) \<and>
   (json_loads E (utf8_decode E raw) = Inl JSONDecodeError \<longrightarrow>
      line_fragment E raw = utf8_decode E raw) \<and>
   (json_loads E (utf8_decode E raw) = Inr obj \<and> extract_text_from_obj obj = Inr None \<longrightarrow>
      line_fragment E raw = utf8_decode E raw) \<and>
   (json_loads E (utf8_decode E raw) = Inr obj \<and> extract_text_from_obj obj = Inr (Some t) \<longrightarrow>
      line_fragment E raw = t)"
proof (intro conjI impI)
  assume h: "\<forall>raw\<in>set raws. raw \<noteq> [] \<longrightarrow> \<not> loads_crashes E raw"
  then show l: "stream_lines E (map Line raws) =
     map (\<lambda>raw. Chunk (line_fragment E raw)) (filter (\<lambda>raw. raw \<noteq> []) raws)"
    by (rule stream_lines_map_Line)
  assume "post_chat E model messages = Response st (map Line raws) \<and> (st < 400 \<or> 600 \<le> st)"
  then show "chat_stream E model messages =
      map (\<lambda>raw. Chunk (line_fragment E raw)) (filter (\<lambda>raw. raw \<noteq> []) raws)"
    using l by (auto simp: chat_stream_def raise_for_status_def)
next
  assume "json_loads E (utf8_decode E raw) = Inl JSONDecodeError"
  then show "line_fragment E raw = utf8_decode E raw" by (simp add: line_fragment_def)
next
  assume "json_loads E (utf8_decode E raw) = Inr obj \<and> extract_text_from_obj obj = Inr None"
  then show "line_fragment E raw = utf8_decode E raw" by (simp add: line_fragment_def)
next
  assume "json_loads E (utf8_decode E raw) = Inr obj \<and> extract_text_from_obj obj = Inr (Some t)"
  then show "line_fragment E raw = t" by (simp add: line_fragment_def)
qed

theorem chat_stream_fragments_witness:
  "chat_stream
     (demo_env (map Line [''{}'', [], ''oops'', CHR 0x22 # ''Hel'' @ [CHR 0x22]]) TagsUnreachable)
     (ascii ''m1'') [] =
   [Chunk (ascii ''{}''), Chunk (ascii ''oops''), Chunk (ascii ''Hel'')]"
proof -
  let ?raws = "[''{}'', [], ''oops'', CHR 0x22 # ''Hel'' @ [CHR 0x22]]"
  let ?E = "demo_env (map Line ?raws) TagsUnreachable"
  have p: "post_chat ?E (ascii ''m1'') [] = Response 200 (map Line ?raws) \<and>
      ((200::nat) < 400 \<or> (600::nat) \<le> 200)"
    by (simp add: demo_env_def)
  have c: "\<forall>raw\<in>set ?raws. raw \<noteq> [] \<longrightarrow> \<not> loads_crashes ?E raw"
    by (simp add: loads_crashes_def demo_env_def demo_decode_def demo_loads_def ascii_def)
  have s: "chat_stream ?E (ascii ''m1'') [] =
      map (\<lambda>raw. Chunk (line_fragment ?E raw)) (filter (\<lambda>raw. raw \<noteq> []) ?raws)"
    using chat_stream_fragments [where E = ?E and model = "ascii ''m1''" and messages = "[]"
        and st = 200 and raws = ?raws] p c
    by blast
  have l1: "json_loads ?E (utf8_decode ?E ''{}'') = Inr (JDict []) \<and>
      extract_text_from_obj (JDict []) = Inr None"
    by (simp add: demo_env_def demo_decode_def demo_loads_def ascii_def or_else_def
        direct_keys_def dict_get_def from_message_def from_delta_def from_choices_def py_or_def)
  have f1: "line_fragment ?E ''{}'' = ascii ''{}''"
    using chat_stream_fragments [where E = ?E and raw = "''{}''" and obj = "JDict []"] l1
    by (simp add: demo_env_def demo_decode_def ascii_def)
  have l2: "json_loads ?E (utf8_decode ?E ''oops'') = Inl JSONDecodeError"
    by (simp add: demo_env_def demo_decode_def demo_loads_def ascii_def)
  have f2: "line_fragment ?E ''oops'' = ascii ''oops''"
    using chat_stream_fragments [where E = ?E and raw = "''oops''"] l2
    by (simp add: demo_env_def demo_decode_def ascii_def)
  have l3: "json_loads ?E (utf8_decode ?E (CHR 0x22 # ''Hel'' @ [CHR 0x22])) =
      Inr (JStr (ascii ''Hel'')) \<and>
      extract_text_from_obj (JStr (ascii ''Hel'')) = Inr (Some (ascii ''Hel''))"
    by (simp add: demo_env_def demo_decode_def demo_loads_def ascii_def)
  have f3: "line_fragment ?E (CHR 0x22 # ''Hel'' @ [CHR 0x22]) = ascii ''Hel''"
    using chat_stream_fragments [where E = ?E and raw = "CHR 0x22 # ''Hel'' @ [CHR 0x22]"
        and obj = "JStr (ascii ''Hel'')" and t = "ascii ''Hel''"] l3
    by blast
  show ?thesis unfolding s using f1 f2 f3 by simp
qed

text \<open>
  The claim C5 as stated fails on the code. A line of a thousand opening brackets is not
  empty and fails JSON decoding, with \<open>RecursionError\<close>: it is not emitted, and the line
  after it is lost with it. The two different lines that consist of the byte \<open>0xFF\<close>
  and of the byte \<open>0xFE\<close> both emit the one character U+FFFD, not the raw line.
\<close>

theorem chat_stream_fragments_counterexample:
  "chat_stream (demo_env [Line (replicate 1000 CHR ''[''), Line ''ok''] TagsUnreachable)
     (ascii ''m1'') [] = [Raised RecursionError] \<and>
   chat_stream (demo_env [Line [CHR 0xFF]] TagsUnreachable) (ascii ''m1'') [] =
     [Chunk [0xFFFD]] \<and>
   chat_stream (demo_env [Line [CHR 0xFE]] TagsUnreachable) (ascii ''m1'') [] =
     [Chunk [0xFFFD]]"
proof -
  have d: "demo_decode (replicate 1000 CHR ''['') = replicate 1000 91"
    by (simp add: demo_decode_def)
  have l: "demo_loads (replicate 1000 91) = Inl RecursionError"
    by (simp add: demo_loads_def list_all_iff)
  have n: "replicate 1000 CHR ''['' \<noteq> []" by simp
  have c1: "chat_stream (demo_env [Line (replicate 1000 CHR ''[''), Line ''ok''] TagsUnreachable)
      (ascii ''m1'') [] = [Raised RecursionError]"
    using n by (simp add: chat_stream_def raise_for_status_def demo_env_def ensure_str_def d l)
  have c2: "chat_stream (demo_env [Line [CHR 0xFF]] TagsUnreachable) (ascii ''m1'') [] =
      [Chunk [0xFFFD]]"
    by (simp add: chat_stream_def raise_for_status_def demo_env_def ensure_str_def
        demo_decode_def demo_loads_def ascii_def)
  have c3: "chat_stream (demo_env [Line [CHR 0xFE]] TagsUnreachable) (ascii ''m1'') [] =
      [Chunk [0xFFFD]]"
    by (simp add: chat_stream_def raise_for_status_def demo_env_def ensure_str_def
        demo_decode_def demo_loads_def ascii_def)
  show ?thesis using c1 c2 c3 by simp
qed

lemma ensure_str_get_tags: "ensure_str (E\<lparr>get_tags := t\<rparr>) x = ensure_str E x"
  by (simp add: ensure_str_def split: pyval.splits json.splits)

lemma listed_identifier:
  "ensure_str (E\<lparr>get_tags := t\<rparr>) (PyJson (model_name (E\<lparr>get_tags := t\<rparr>) m)) =
     model_identifier E m"
  by (cases m) (simp_all add: model_name_def model_identifier_def ensure_str_def split: json.splits)

text \<open>
  C9. A model listing delivered as a plain array and the same array wrapped in an object
  under \<open>tags\<close> fill the list of models with the same identifiers, one per entry and
  in order: a string stands for itself, an object for its \<open>name\<close>, any other value for
  its string representation.
\<close>

theorem model_listing_normalized:
  "((st < 400 \<or> 600 \<le> st) \<and> map_of d (ascii ''tags'') = Some (JList xs) \<longrightarrow>
      fst (refresh_models (E\<lparr>get_tags := TagsReply st (Some (JList xs))\<rparr>) a) =
        a\<lparr>model_listbox := map (model_identifier E) xs\<rparr> \<and>
      fst (refresh_models (E\<lparr>get_tags := TagsReply st (Some (JDict d))\<rparr>) a) =
        a\<lparr>model_listbox := map (model_identifier E) xs\<rparr>) \<and>
   model_identifier E (JStr s) = s \<and>
   (dict_get obj (ascii ''name'') = JStr n \<longrightarrow> model_identifier E (JDict obj) = n) \<and>
   (\<not> is_str m \<and> (\<forall>obj'. m \<noteq> JDict obj') \<longrightarrow> model_identifier E m = py_str E m)"
proof (intro conjI impI)
  assume h: "(st < 400 \<or> 600 \<le> st) \<and> map_of d (ascii ''tags'') = Some (JList xs)"
  show "fst (refresh_models (E\<lparr>get_tags := TagsReply st (Some (JList xs))\<rparr>) a) =
        a\<lparr>model_listbox := map (model_identifier E) xs\<rparr>"
    using h
    by (auto simp: refresh_models_def list_models_def raise_for_status_def model_names_def
        listed_identifier comp_def)
  show "fst (refresh_models (E\<lparr>get_tags := TagsReply st (Some (JDict d))\<rparr>) a) =
        a\<lparr>model_listbox := map (model_identifier E) xs\<rparr>"
    using h
    by (auto simp: refresh_models_def list_models_def raise_for_status_def model_names_def
        contains_def subscript_def listed_identifier comp_def)
next
  show "model_identifier E (JStr s) = s" by (simp add: model_identifier_def)
next
  assume "dict_get obj (ascii ''name'') = JStr n"
  then show "model_identifier E (JDict obj) = n"
    by (simp add: model_identifier_def ensure_str_def)
next
  assume "\<not> is_str m \<and> (\<forall>obj'. m \<noteq> JDict obj')"
  then show "model_identifier E m = py_str E m"
    by (cases m) (simp_all add: model_identifier_def)
qed

theorem model_listing_normalized_witness:
  "model_listbox
     (fst (refresh_models
        ((demo_env [] TagsUnreachable)
           \<lparr>get_tags := TagsReply 200
              (Some (JDict [(ascii ''tags'',
                 JList [JStr (ascii ''llama3''), JDict [(ascii ''name'', JStr (ascii ''phi''))],
                        JInt 3])]))\<rparr>)
        init_app)) =
     [ascii ''llama3'', ascii ''phi'', ascii ''?''] \<and>
   model_listbox
     (fst (refresh_models
        ((demo_env [] TagsUnreachable)
           \<lparr>get_tags := TagsReply 200
              (Some (JList [JStr (ascii ''llama3''), JDict [(ascii ''name'', JStr (ascii ''phi''))],
                        JInt 3]))\<rparr>)
        init_app)) =
     [ascii ''llama3'', ascii ''phi'', ascii ''?'']"
proof -
  let ?xs = "[JStr (ascii ''llama3''), JDict [(ascii ''name'', JStr (ascii ''phi''))], JInt 3]"
  let ?d = "[(ascii ''tags'', JList ?xs)]"
  let ?E = "demo_env [] TagsUnreachable"
  have h: "((200::nat) < 400 \<or> (600::nat) \<le> 200) \<and> map_of ?d (ascii ''tags'') = Some (JList ?xs)"
    by simp
  have n: "dict_get [(ascii ''name'', JStr (ascii ''phi''))] (ascii ''name'') = JStr (ascii ''phi'')"
    by (simp add: dict_get_def)
  have o: "\<not> is_str (JInt 3) \<and> (\<forall>obj'. JInt 3 \<noteq> JDict obj')" by simp
  have i1: "model_identifier ?E (JStr (ascii ''llama3'')) = ascii ''llama3''"
    using model_listing_normalized [where E = ?E and s = "ascii ''llama3''"] by blast
  have i2: "model_identifier ?E (JDict [(ascii ''name'', JStr (ascii ''phi''))]) = ascii ''phi''"
    using model_listing_normalized
      [where E = ?E and obj = "[(ascii ''name'', JStr (ascii ''phi''))]" and n = "ascii ''phi''"] n
    by blast
  have i3: "model_identifier ?E (JInt 3) = ascii ''?''"
    using model_listing_normalized [where E = ?E and m = "JInt 3"] o
    by (simp add: demo_env_def)
  have l: "fst (refresh_models (?E\<lparr>get_tags := TagsReply 200 (Some (JList ?xs))\<rparr>) init_app) =
        init_app\<lparr>model_listbox := map (model_identifier ?E) ?xs\<rparr> \<and>
      fst (refresh_models (?E\<lparr>get_tags := TagsReply 200 (Some (JDict ?d))\<rparr>) init_app) =
        init_app\<lparr>model_listbox := map (model_identifier ?E) ?xs\<rparr>"
    using model_listing_normalized
      [where E = ?E and st = 200 and d = ?d and xs = ?xs and a = init_app] h
    by blast
  show ?thesis using l i1 i2 i3 by simp
qed

text \<open>
  C10. The identifier of an upload is \<open>sha256:\<close> followed by the hexadecimal SHA-256
  digest of the bytes read, so two uploads of the same bytes that succeed return the same
  identifier, whatever the server answers. A PUT answered with a status other than 200
  and 201 is followed by exactly one POST to the same path with the same bytes, whose
  answer decides the result; a PUT answered with 200 or 201 is followed by nothing.
\<close>

theorem upload_blob_content_addressed:
  "read_file E p1 = Some data \<and> read_file E p2 = Some data \<longrightarrow>
     (snd (upload_blob E p1 r1 q1) = Inr d1 \<and> snd (upload_blob E p2 r2 q2) = Inr d2 \<longrightarrow>
        d1 = ascii ''sha256:'' @ sha256_hex E data \<and> d2 = d1) \<and>
     (st \<noteq> 200 \<and> st \<noteq> 201 \<longrightarrow>
        fst (upload_blob E p1 (Status st) q1) =
          [Put (base_url E @ ascii ''/api/blobs/'' @ ascii ''sha256:'' @ sha256_hex E data) data,
           Post (base_url E @ ascii ''/api/blobs/'' @ ascii ''sha256:'' @ sha256_hex E data) data] \<and>
        snd (upload_blob E p1 (Status st) (Status st2)) =
          (if 400 \<le> st2 \<and> st2 < 600 then Inl HTTPError
           else Inr (ascii ''sha256:'' @ sha256_hex E data)) \<and>
        snd (upload_blob E p1 (Status st) NoReply) = Inl ConnectionError) \<and>
     (st = 200 \<or> st = 201 \<longrightarrow>
        upload_blob E p1 (Status st) q1 =
          ([Put (base_url E @ ascii ''/api/blobs/'' @ ascii ''sha256:'' @ sha256_hex E data) data],
           Inr (ascii ''sha256:'' @ sha256_hex E data)))"
proof (intro conjI impI)
  assume r: "read_file E p1 = Some data \<and> read_file E p2 = Some data"
  {
    assume "snd (upload_blob E p1 r1 q1) = Inr d1 \<and> snd (upload_blob E p2 r2 q2) = Inr d2"
    with r have "d1 = ascii ''sha256:'' @ sha256_hex E data"
      and "d2 = ascii ''sha256:'' @ sha256_hex E data"
      by (auto simp: upload_blob_def Let_def raise_for_status_def
          split: reply.splits if_splits)
    then show "d1 = ascii ''sha256:'' @ sha256_hex E data" and "d2 = d1" by simp_all
  next
    assume "st \<noteq> 200 \<and> st \<noteq> 201"
    with r show "fst (upload_blob E p1 (Status st) q1) =
          [Put (base_url E @ ascii ''/api/blobs/'' @ ascii ''sha256:'' @ sha256_hex E data) data,
           Post (base_url E @ ascii ''/api/blobs/'' @ ascii ''sha256:'' @ sha256_hex E data) data]"
      and "snd (upload_blob E p1 (Status st) (Status st2)) =
          (if 400 \<le> st2 \<and> st2 < 600 then Inl HTTPError
           else Inr (ascii ''sha256:'' @ sha256_hex E data))"
      and "snd (upload_blob E p1 (Status st) NoReply) = Inl ConnectionError"
      by (simp_all add: upload_blob_def Let_def raise_for_status_def split: reply.splits)
  next
    assume "st = 200 \<or> st = 201"
    with r show "upload_blob E p1 (Status st) q1 =
          ([Put (base_url E @ ascii ''/api/blobs/'' @ ascii ''sha256:'' @ sha256_hex E data) data],
           Inr (ascii ''sha256:'' @ sha256_hex E data))"
      by (auto simp: upload_blob_def Let_def raise_for_status_def)
  }
qed

theorem upload_blob_content_addressed_witness:
  "upload_blob (demo_env [] TagsUnreachable) (ascii ''a.png'') (Status 201) NoReply =
     ([Put (ascii ''http://localhost:11434/api/blobs/sha256:00'') ''img''],
      Inr (ascii ''sha256:00'')) \<and>
   fst (upload_blob (demo_env [] TagsUnreachable) (ascii ''a.png'') (Status 405) (Status 200)) =
     [Put (ascii ''http://localhost:11434/api/blobs/sha256:00'') ''img'',
      Post (ascii ''http://localhost:11434/api/blobs/sha256:00'') ''img''] \<and>
   snd (upload_blob (demo_env [] TagsUnreachable) (ascii ''a.png'') (Status 405) (Status 200)) =
     Inr (ascii ''sha256:00'')"
proof -
  let ?E = "demo_env [] TagsUnreachable"
  have r: "read_file ?E (ascii ''a.png'') = Some ''img'' \<and>
      read_file ?E (ascii ''a.png'') = Some ''img''"
    by (simp add: demo_env_def)
  have a: "(201::nat) = 200 \<or> (201::nat) = 201" by simp
  have b: "(405::nat) \<noteq> 200 \<and> (405::nat) \<noteq> 201" by simp
  have c1: "upload_blob ?E (ascii ''a.png'') (Status 201) NoReply =
      ([Put (base_url ?E @ ascii ''/api/blobs/'' @ ascii ''sha256:'' @ sha256_hex ?E ''img'') ''img''],
       Inr (ascii ''sha256:'' @ sha256_hex ?E ''img''))"
    using upload_blob_content_addressed
      [where E = ?E and ?p1.0 = "ascii ''a.png''" and ?p2.0 = "ascii ''a.png''" and data = "''img''"
        and st = 201 and ?q1.0 = NoReply] r a
    by blast
  have c2: "fst (upload_blob ?E (ascii ''a.png'') (Status 405) (Status 200)) =
      [Put (base_url ?E @ ascii ''/api/blobs/'' @ ascii ''sha256:'' @ sha256_hex ?E ''img'') ''img'',
       Post (base_url ?E @ ascii ''/api/blobs/'' @ ascii ''sha256:'' @ sha256_hex ?E ''img'') ''img''] \<and>
      snd (upload_blob ?E (ascii ''a.png'') (Status 405) (Status 200)) =
      (if (400::nat) \<le> 200 \<and> (200::nat) < 600 then Inl HTTPError
       else Inr (ascii ''sha256:'' @ sha256_hex ?E ''img''))"
    using upload_blob_content_addressed
      [where E = ?E and ?p1.0 = "ascii ''a.png''" and ?p2.0 = "ascii ''a.png''" and data = "''img''"
        and st = 405 and ?q1.0 = "Status 200" and ?st2.0 = 200] r b
    by blast
  show ?thesis using c1 c2 by (simp add: demo_env_def ascii_def)
qed

section \<open>Properties of streaming\<close>

lemma ensure_str_JStr: "ensure_str E (PyJson (JStr s)) = s"
  by (simp add: ensure_str_def)

lemma stream_loop_Chunk:
  "stream_loop E acc (Chunk c # rest) =
     (UpdateBlock (acc @ c) # fst (stream_loop E (acc @ c) rest),
      snd (stream_loop E (acc @ c) rest))"
  by (simp add: ensure_str_JStr Let_def split: prod.splits)

lemma stream_loop_tasks:
  "fst (stream_loop E acc cs) =
     map (\<lambda>k. UpdateBlock (acc @ concat (take (Suc k) (delivered cs))))
       [0..<length (delivered cs)]"
proof (induction cs arbitrary: acc)
  case Nil
  show ?case by simp
next
  case (Cons x rest)
  show ?case
  proof (cases x)
    case (Chunk c)
    have "fst (stream_loop E acc (Chunk c # rest)) =
        UpdateBlock (acc @ c) # fst (stream_loop E (acc @ c) rest)"
      by (simp only: stream_loop_Chunk fst_conv)
    also have "\<dots> = UpdateBlock (acc @ c) #
        map (\<lambda>k. UpdateBlock ((acc @ c) @ concat (take (Suc k) (delivered rest))))
          [0..<length (delivered rest)]"
      by (simp only: Cons.IH)
    also have "\<dots> = map (\<lambda>k. UpdateBlock (acc @ concat (take (Suc k) (c # delivered rest))))
          [0..<Suc (length (delivered rest))]"
      by (simp add: map_upt_Suc del: upt_Suc)
    finally show ?thesis using Chunk by simp
  next
    case (Raised exc)
    then show ?thesis by simp
  qed
qed

lemma stream_loop_completes:
  "\<not> stream_failed cs \<Longrightarrow> snd (stream_loop E acc cs) = Inr (acc @ concat (delivered cs))"
proof (induction cs arbitrary: acc)
  case Nil
  show ?case by simp
next
  case (Cons x rest)
  then show ?case by (cases x) (simp_all add: stream_loop_Chunk del: stream_loop.simps(3))
qed

lemma stream_loop_fails:
  "stream_failed cs \<Longrightarrow> \<exists>exc. snd (stream_loop E acc cs) = Inl exc"
proof (induction cs arbitrary: acc)
  case Nil
  then show ?case by simp
next
  case (Cons x rest)
  then show ?case by (cases x) (simp_all add: stream_loop_Chunk del: stream_loop.simps(3))
qed

lemma run_tasks_append: "run_tasks E (ts @ us) a = run_tasks E us (run_tasks E ts a)"
  by (induction ts arbitrary: a) simp_all

text \<open>
  One rewrite, when deleting from the stored index keeps the first \<open>j\<close> items: the
  transcript becomes those items followed by the new block, and the index points at the
  block.
\<close>

lemma update_block_replaces:
  assumes "last_assistant_index a = Some i" "text_delete E (history a) i = Some (take j (history a))"
  shows "history (update_block E t a) = with_assistant_block (take j (history a)) t"
    and "last_assistant_index (update_block E t a) = Some (length (take j (history a)))"
  using assms by (simp_all add: update_block_def Let_def with_assistant_block_def insert_end_def)

lemma placeholder_shown:
  "history (fst (run_task E ShowPlaceholder a)) = with_assistant_block (history a) (ascii ''...'')"
  "last_assistant_index (fst (run_task E ShowPlaceholder a)) = Some (length (history a))"
  by (simp_all add: run_task_def append_assistant_def Let_def with_assistant_block_def
      insert_end_def split: option.splits)

text \<open>
  The invariant of a run of rewrites: the index \<open>n\<close> lies within the transcript
  \<open>orig\<close> that was there before the placeholder, and the widget still starts with the
  first \<open>n\<close> items of it.
\<close>

lemma update_block_step:
  assumes del: "\<forall>w i. \<exists>j\<le>i. text_delete E w i = Some (take j w)"
    and inv: "last_assistant_index a = Some n" "n \<le> length orig" "take n (history a) = take n orig"
  shows "\<exists>j\<le>n. history (update_block E t a) = with_assistant_block (take j orig) t \<and>
      last_assistant_index (update_block E t a) = Some j \<and>
      take j (history (update_block E t a)) = take j orig"
proof -
  from del obtain j where j: "j \<le> n" "text_delete E (history a) n = Some (take j (history a))"
    by blast
  have "take j (history a) = take j (take n (history a))" using j(1) by (simp add: min_def)
  also have "\<dots> = take j orig" using inv(3) j(1) by (simp add: min_def)
  finally have pre: "take j (history a) = take j orig" .
  have len: "length (take j orig) = j" using j(1) inv(2) by simp
  have h: "history (update_block E t a) = with_assistant_block (take j orig) t"
    using update_block_replaces(1) [OF inv(1) j(2)] pre by simp
  have i: "last_assistant_index (update_block E t a) = Some j"
    using update_block_replaces(2) [OF inv(1) j(2)] pre len by simp
  have "take j (history (update_block E t a)) = take j orig"
    unfolding h using len by (simp add: with_assistant_block_def)
  with h i j(1) show ?thesis by blast
qed

lemma run_updates:
  assumes del: "\<forall>w i. \<exists>j\<le>i. text_delete E w i = Some (take j w)"
  shows "us \<noteq> [] \<Longrightarrow> last_assistant_index a = Some n \<Longrightarrow> n \<le> length orig \<Longrightarrow>
     take n (history a) = take n orig \<Longrightarrow>
     \<exists>j\<le>n. history (run_tasks E (map UpdateBlock us) a) =
       with_assistant_block (take j orig) (last us)"
proof (induction us arbitrary: a n)
  case Nil
  then show ?case by simp
next
  case (Cons t us)
  from update_block_step [OF del Cons.prems(2) Cons.prems(3) Cons.prems(4), of t]
  obtain j where j: "j \<le> n" "history (update_block E t a) = with_assistant_block (take j orig) t"
    "last_assistant_index (update_block E t a) = Some j"
    "take j (history (update_block E t a)) = take j orig"
    by blast
  show ?case
  proof (cases "us = []")
    case True
    with j show ?thesis by (auto simp: run_task_def)
  next
    case False
    from j(1) Cons.prems(3) have "j \<le> length orig" by simp
    from Cons.IH [OF False j(3) this j(4)]
    obtain j' where j': "j' \<le> j" "history (run_tasks E (map UpdateBlock us) (update_block E t a)) =
        with_assistant_block (take j' orig) (last us)"
      by blast
    from j'(1) j(1) have "j' \<le> n" by simp
    moreover have "history (run_tasks E (map UpdateBlock (t # us)) a) =
        with_assistant_block (take j' orig) (last (t # us))"
      using j'(2) False by (simp add: run_task_def)
    ultimately show ?thesis by blast
  qed
qed

lemma run_updates_exact:
  assumes del: "\<forall>w i. text_delete E w i = Some (take i w)"
  shows "us \<noteq> [] \<Longrightarrow> last_assistant_index a = Some n \<Longrightarrow> n \<le> length (history a) \<Longrightarrow>
     history (run_tasks E (map UpdateBlock us) a) =
       with_assistant_block (take n (history a)) (last us)"
proof (induction us arbitrary: a)
  case Nil
  then show ?case by simp
next
  case (Cons t us)
  from del have d: "text_delete E (history a) n = Some (take n (history a))" by simp
  have h: "history (update_block E t a) = with_assistant_block (take n (history a)) t"
    and i: "last_assistant_index (update_block E t a) = Some n"
    using update_block_replaces [OF Cons.prems(2) d] Cons.prems(3) by simp_all
  show ?case
  proof (cases "us = []")
    case True
    with h show ?thesis by (simp add: run_task_def)
  next
    case False
    have n: "n \<le> length (history (update_block E t a))"
      unfolding h using Cons.prems(3) by (simp add: with_assistant_block_def)
    have t: "take n (history (update_block E t a)) = take n (history a)"
      unfolding h using Cons.prems(3) by (simp add: with_assistant_block_def)
    from Cons.IH [OF False i n] t False show ?thesis by (simp add: run_task_def)
  qed
qed

lemma take_tasks:
  "k \<le> length fs \<Longrightarrow>
   take k (map (\<lambda>i. UpdateBlock (concat (take (Suc i) fs))) [0..<length fs]) =
     map UpdateBlock (map (\<lambda>i. concat (take (Suc i) fs)) [0..<k])"
  by (simp add: take_map comp_def)

lemma last_prefix_texts:
  "0 < k \<Longrightarrow> last (map (\<lambda>i. concat (take (Suc i) fs)) [0..<k]) = concat (take k fs)"
  by (cases k) (simp_all add: last_map)

text \<open>
  C1. While one reply is streamed, the user interface is handed, in arrival order, one
  rewrite of the assistant block per fragment delivered by \<open>chat_stream\<close>, and the text
  of the \<open>k\<close>-th rewrite is the concatenation of the first \<open>k\<close> fragments. Once the
  placeholder and the first \<open>k\<close> rewrites have run, the transcript is what it was
  before the reply, followed by one assistant block, whose text is that concatenation:
  the placeholder and every earlier text are gone. This holds when deleting from an index
  to the end of the widget keeps exactly the items before the index; when the deletion
  may also take items before the index, as Tk does with a newline that precedes it, the
  transcript is a prefix of what it was, followed by that one block. For the fragments
  \<open>Hel\<close>, \<open>lo, \<close>, \<open>world\<close> the texts are \<open>Hel\<close>, \<open>Hello, \<close>, \<open>Hello, world\<close>.
\<close>

theorem displayed_text_is_concatenation:
  "fst (stream_loop E [] cs) =
     map (\<lambda>k. UpdateBlock (concat (take (Suc k) (delivered cs)))) [0..<length (delivered cs)] \<and>
   ((\<forall>w i. text_delete E w i = Some (take i w)) \<longrightarrow>
      (\<forall>k. 0 < k \<and> k \<le> length (delivered cs) \<longrightarrow>
         history (run_tasks E (ShowPlaceholder # take k (fst (stream_loop E [] cs))) a) =
           with_assistant_block (history a) (concat (take k (delivered cs))))) \<and>
   ((\<forall>w i. \<exists>j\<le>i. text_delete E w i = Some (take j w)) \<longrightarrow>
      (\<forall>k. 0 < k \<and> k \<le> length (delivered cs) \<longrightarrow>
         (\<exists>j\<le>length (history a).
            history (run_tasks E (ShowPlaceholder # take k (fst (stream_loop E [] cs))) a) =
              with_assistant_block (take j (history a)) (concat (take k (delivered cs)))))) \<and>
   fst (stream_loop E [] [Chunk (ascii ''Hel''), Chunk (ascii ''lo, ''), Chunk (ascii ''world'')]) =
     [UpdateBlock (ascii ''Hel''), UpdateBlock (ascii ''Hello, ''),
      UpdateBlock (ascii ''Hello, world'')]"
proof (intro conjI allI impI)
  let ?fs = "delivered cs"
  let ?p = "fst (run_task E ShowPlaceholder a)"
  show t: "fst (stream_loop E [] cs) =
     map (\<lambda>k. UpdateBlock (concat (take (Suc k) ?fs))) [0..<length ?fs]"
    using stream_loop_tasks [of E "[]" cs] by simp
  have run: "run_tasks E (ShowPlaceholder # take k (fst (stream_loop E [] cs))) a =
      run_tasks E (map UpdateBlock (map (\<lambda>i. concat (take (Suc i) ?fs)) [0..<k])) ?p"
    if "k \<le> length ?fs" for k
    using that by (simp add: t take_tasks del: upt_Suc)
  have idx: "last_assistant_index ?p = Some (length (history a))"
    by (rule placeholder_shown(2))
  have pre: "take (length (history a)) (history ?p) = history a"
    by (simp add: placeholder_shown(1) with_assistant_block_def)
  {
    fix k
    assume del: "\<forall>w i. text_delete E w i = Some (take i w)"
      and k: "0 < k \<and> k \<le> length ?fs"
    then have ne: "map (\<lambda>i. concat (take (Suc i) ?fs)) [0..<k] \<noteq> []" by simp
    have le: "length (history a) \<le> length (history ?p)"
      by (simp add: placeholder_shown(1) with_assistant_block_def)
    from k have kk: "k \<le> length ?fs" "0 < k" by simp_all
    show "history (run_tasks E (ShowPlaceholder # take k (fst (stream_loop E [] cs))) a) =
        with_assistant_block (history a) (concat (take k ?fs))"
      unfolding run [OF kk(1)] run_updates_exact [OF del ne idx le] pre
        last_prefix_texts [OF kk(2)]
      by (rule refl)
  next
    fix k
    assume del: "\<forall>w i. \<exists>j\<le>i. text_delete E w i = Some (take j w)"
      and k: "0 < k \<and> k \<le> length ?fs"
    then have ne: "map (\<lambda>i. concat (take (Suc i) ?fs)) [0..<k] \<noteq> []" by simp
    have "take (length (history a)) (history ?p) = take (length (history a)) (history a)"
      using pre by simp
    from run_updates [OF del ne idx _ this]
    have "\<exists>j\<le>length (history a).
        history (run_tasks E (map UpdateBlock (map (\<lambda>i. concat (take (Suc i) ?fs)) [0..<k])) ?p) =
          with_assistant_block (take j (history a))
            (last (map (\<lambda>i. concat (take (Suc i) ?fs)) [0..<k]))"
      by simp
    moreover from k have kk: "k \<le> length ?fs" "0 < k" by simp_all
    ultimately show "\<exists>j\<le>length (history a).
        history (run_tasks E (ShowPlaceholder # take k (fst (stream_loop E [] cs))) a) =
          with_assistant_block (take j (history a)) (concat (take k ?fs))"
      unfolding run [OF kk(1)] last_prefix_texts [OF kk(2)] by simp
  }
next
  show "fst (stream_loop E [] [Chunk (ascii ''Hel''), Chunk (ascii ''lo, ''), Chunk (ascii ''world'')]) =
     [UpdateBlock (ascii ''Hel''), UpdateBlock (ascii ''Hello, ''),
      UpdateBlock (ascii ''Hello, world'')]"
    by (simp add: stream_loop_Chunk ascii_def del: stream_loop.simps(3))
qed

theorem displayed_text_is_concatenation_witness:
  "history
     (run_tasks (demo_env [] TagsUnreachable)
        (ShowPlaceholder #
         take 2 (fst (stream_loop (demo_env [] TagsUnreachable) []
                        [Chunk (ascii ''Hel''), Chunk (ascii ''lo, ''), Chunk (ascii ''world'')])))
        (insert_user_text (demo_app []) (ascii ''hi''))) =
   map Ch (ascii ''User: hi'' @ [10, 10, 10] @ ascii ''Assistant: Hello, '' @ [10]) \<and>
   (\<exists>j\<le>length (history (insert_user_text (demo_app []) (ascii ''hi''))).
      history
        (run_tasks (demo_env [] TagsUnreachable)
           (ShowPlaceholder #
            take 2 (fst (stream_loop (demo_env [] TagsUnreachable) []
                           [Chunk (ascii ''Hel''), Chunk (ascii ''lo, ''), Chunk (ascii ''world'')])))
           (insert_user_text (demo_app []) (ascii ''hi''))) =
      with_assistant_block (take j (history (insert_user_text (demo_app []) (ascii ''hi''))))
        (ascii ''Hello, ''))"
proof -
  let ?E = "demo_env [] TagsUnreachable"
  let ?cs = "[Chunk (ascii ''Hel''), Chunk (ascii ''lo, ''), Chunk (ascii ''world'')]"
  let ?a = "insert_user_text (demo_app []) (ascii ''hi'')"
  have d1: "\<forall>w i. text_delete ?E w i = Some (take i w)" by (simp add: demo_env_def)
  have d2: "\<forall>w i. \<exists>j\<le>i. text_delete ?E w i = Some (take j w)"
    by (auto simp: demo_env_def)
  have h: "(0::nat) < 2 \<and> 2 \<le> length (delivered ?cs)" by simp
  have c: "concat (take 2 (delivered ?cs)) = ascii ''Hello, ''"
    by (simp add: ascii_def numeral_2_eq_2)
  have u: "history ?a = map Ch (ascii ''User: hi'' @ [10])"
    by (simp add: insert_user_text_def insert_end_def sep_for_def widget_text_def strip_def
        demo_app_def init_app_def ascii_def)
  have b: "with_assistant_block (map Ch (ascii ''User: hi'' @ [10])) (ascii ''Hello, '') =
      map Ch (ascii ''User: hi'' @ [10, 10, 10] @ ascii ''Assistant: Hello, '' @ [10])"
    by (simp add: with_assistant_block_def sep_for_def widget_text_def strip_def isspace_def
        ascii_def)
  have e: "history (run_tasks ?E (ShowPlaceholder # take 2 (fst (stream_loop ?E [] ?cs))) ?a) =
      with_assistant_block (history ?a) (concat (take 2 (delivered ?cs)))"
    using displayed_text_is_concatenation [where E = ?E and cs = ?cs and a = ?a] d1 h
    by blast
  have g: "\<exists>j\<le>length (history ?a).
      history (run_tasks ?E (ShowPlaceholder # take 2 (fst (stream_loop ?E [] ?cs))) ?a) =
        with_assistant_block (take j (history ?a)) (concat (take 2 (delivered ?cs)))"
    using displayed_text_is_concatenation [where E = ?E and cs = ?cs and a = ?a] d2 h
    by blast
  show ?thesis using e g unfolding c u b by simp
qed

lemma stream_response_state:
  "fst (stream_response E model messages a) =
     fst (stream_finish (snd (stream_loop E [] (chat_stream E model messages))) a)"
  by (simp add: stream_response_def split: prod.splits)

lemma hist_append_changes: "h(m \<mapsto> turns_for h m @ [e]) \<noteq> h"
proof
  assume "h(m \<mapsto> turns_for h m @ [e]) = h"
  then have "(h(m \<mapsto> turns_for h m @ [e])) m = h m" by simp
  then show False by (simp add: turns_for_def split: option.splits)
qed

lemma hist_append_turns_for: "hist_append h m e = h(m \<mapsto> turns_for h m @ [e])"
  by (simp add: hist_append_def turns_for_def)

text \<open>
  C2, as the code has it. When the stream fails at any point, the worker leaves the state
  as it is: no Assistant turn is committed. When the model of the send is still the
  selected one at the end of the stream, an Assistant turn is committed if and only if
  the stream ends without error and the accumulated text, with leading and trailing
  whitespace removed, is not empty; the text committed is the accumulated concatenation
  of all fragments with that whitespace removed; the turn is appended to the history of
  the model, and nothing else changes.
\<close>

theorem reply_commit:
  "(stream_failed (chat_stream E model messages) \<longrightarrow>
      fst (stream_response E model messages a) = a) \<and>
   (current_model a = Some model \<and> model \<noteq> [] \<longrightarrow>
      fst (stream_response E model messages a) =
        (if \<not> stream_failed (chat_stream E model messages) \<and>
            strip (concat (delivered (chat_stream E model messages))) \<noteq> []
         then a\<lparr>histories := (histories a)(model \<mapsto>
                  turns_for (histories a) model @
                  [AssistantEntry (strip (concat (delivered (chat_stream E model messages))))])\<rparr>
         else a) \<and>
      (histories (fst (stream_response E model messages a)) \<noteq> histories a \<longleftrightarrow>
         \<not> stream_failed (chat_stream E model messages) \<and>
         strip (concat (delivered (chat_stream E model messages))) \<noteq> []))"
proof (intro conjI impI)
  let ?cs = "chat_stream E model messages"
  assume "stream_failed ?cs"
  then obtain exc where "snd (stream_loop E [] ?cs) = Inl exc"
    using stream_loop_fails by blast
  then show "fst (stream_response E model messages a) = a"
    by (simp add: stream_response_state stream_finish_def)
next
  let ?cs = "chat_stream E model messages"
  assume m: "current_model a = Some model \<and> model \<noteq> []"
  have s: "fst (stream_response E model messages a) =
       (if \<not> stream_failed ?cs \<and> strip (concat (delivered ?cs)) \<noteq> []
        then a\<lparr>histories := (histories a)(model \<mapsto>
                 turns_for (histories a) model @ [AssistantEntry (strip (concat (delivered ?cs)))])\<rparr>
        else a)"
  proof (cases "stream_failed ?cs")
    case True
    then obtain exc where "snd (stream_loop E [] ?cs) = Inl exc"
      using stream_loop_fails by blast
    with True show ?thesis by (simp add: stream_response_state stream_finish_def)
  next
    case False
    then have "snd (stream_loop E [] ?cs) = Inr (concat (delivered ?cs))"
      using stream_loop_completes [of ?cs E "[]"] by simp
    with False m show ?thesis
      by (simp add: stream_response_state stream_finish_def Let_def hist_append_turns_for)
  qed
  show "fst (stream_response E model messages a) =
       (if \<not> stream_failed ?cs \<and> strip (concat (delivered ?cs)) \<noteq> []
        then a\<lparr>histories := (histories a)(model \<mapsto>
                 turns_for (histories a) model @ [AssistantEntry (strip (concat (delivered ?cs)))])\<rparr>
        else a)"
    by (rule s)
  show "histories (fst (stream_response E model messages a)) \<noteq> histories a \<longleftrightarrow>
        \<not> stream_failed ?cs \<and> strip (concat (delivered ?cs)) \<noteq> []"
    unfolding s using hist_append_changes [of "histories a" model] by auto
qed

lemma demo_stream:
  "chat_stream (demo_env [Line ''He'', Line ''llo!''] t) model messages =
     [Chunk (ascii ''He''), Chunk (ascii ''llo!'')]"
  by (simp add: chat_stream_def raise_for_status_def demo_env_def demo_decode_def demo_loads_def
      ensure_str_def ascii_def)

lemma strip_Hello: "strip (ascii ''Hello!'') = ascii ''Hello!''"
  by (simp add: strip_def isspace_def ascii_def)

theorem reply_commit_witness:
  "turns_for
     (histories
        (fst (stream_response (demo_env [Line ''He'', Line ''llo!''] TagsUnreachable)
                (ascii ''m1'') [] (demo_app []))))
     (ascii ''m1'') =
   [AssistantEntry (ascii ''Hello!'')] \<and>
   fst (stream_response (demo_env [Line ''He'', Broken] TagsUnreachable) (ascii ''m1'') []
          (demo_app [])) =
   demo_app []"
proof -
  let ?E = "demo_env [Line ''He'', Line ''llo!''] TagsUnreachable"
  let ?F = "demo_env [Line ''He'', Broken] TagsUnreachable"
  have h: "current_model (demo_app []) = Some (ascii ''m1'') \<and> ascii ''m1'' \<noteq> []"
    by (simp add: demo_app_def init_app_def ascii_def)
  have c: "concat (delivered (chat_stream ?E (ascii ''m1'') [])) = ascii ''Hello!''"
    "\<not> stream_failed (chat_stream ?E (ascii ''m1'') [])"
    by (simp_all add: demo_stream ascii_def)
  have n: "ascii ''Hello!'' \<noteq> []" by (simp add: ascii_def)
  have "fst (stream_response ?E (ascii ''m1'') [] (demo_app [])) =
      (demo_app [])\<lparr>histories := (histories (demo_app []))(ascii ''m1'' \<mapsto>
         turns_for (histories (demo_app [])) (ascii ''m1'') @ [AssistantEntry (ascii ''Hello!'')])\<rparr>"
    using reply_commit [where E = ?E and model = "ascii ''m1''" and messages = "[]"
        and a = "demo_app []"] h c n
    by (simp add: strip_Hello)
  then have committed: "turns_for (histories (fst (stream_response ?E (ascii ''m1'') [] (demo_app []))))
      (ascii ''m1'') = [AssistantEntry (ascii ''Hello!'')]"
    by (simp add: turns_for_def demo_app_def init_app_def)
  have f: "stream_failed (chat_stream ?F (ascii ''m1'') [])"
    by (simp add: chat_stream_def raise_for_status_def demo_env_def demo_decode_def demo_loads_def
        ensure_str_def ascii_def)
  have failed: "fst (stream_response ?F (ascii ''m1'') [] (demo_app [])) = demo_app []"
    using reply_commit [where E = ?F and model = "ascii ''m1''" and messages = "[]"
        and a = "demo_app []"] f
    by blast
  show ?thesis using committed failed by simp
qed

text \<open>
  The claim C2 as stated fails on the code. A stream that delivers the single fragment
  \<open> hi \<close> and ends without error commits \<open>hi\<close>, not the accumulated text; a stream
  that delivers a single blank and ends without error has a non-empty accumulated text
  and commits nothing.
\<close>

theorem reply_commit_counterexample:
  "\<not> stream_failed (chat_stream (demo_env [Line '' hi ''] TagsUnreachable) (ascii ''m1'') []) \<and>
   concat (delivered (chat_stream (demo_env [Line '' hi ''] TagsUnreachable) (ascii ''m1'') [])) =
     ascii '' hi '' \<and>
   turns_for
     (histories
        (fst (stream_response (demo_env [Line '' hi ''] TagsUnreachable) (ascii ''m1'') []
                (demo_app []))))
     (ascii ''m1'') =
     [AssistantEntry (ascii ''hi'')] \<and>
   ascii ''hi'' \<noteq> ascii '' hi '' \<and>
   \<not> stream_failed (chat_stream (demo_env [Line '' ''] TagsUnreachable) (ascii ''m1'') []) \<and>
   concat (delivered (chat_stream (demo_env [Line '' ''] TagsUnreachable) (ascii ''m1'') [])) =
     ascii '' '' \<and>
   ascii '' '' \<noteq> [] \<and>
   fst (stream_response (demo_env [Line '' ''] TagsUnreachable) (ascii ''m1'') [] (demo_app [])) =
     demo_app []"
proof -
  have s1: "chat_stream (demo_env [Line '' hi ''] TagsUnreachable) (ascii ''m1'') [] =
      [Chunk (ascii '' hi '')]"
    by (simp add: chat_stream_def raise_for_status_def demo_env_def demo_decode_def demo_loads_def
        ensure_str_def ascii_def)
  have s2: "chat_stream (demo_env [Line '' ''] TagsUnreachable) (ascii ''m1'') [] =
      [Chunk (ascii '' '')]"
    by (simp add: chat_stream_def raise_for_status_def demo_env_def demo_decode_def demo_loads_def
        ensure_str_def ascii_def)
  have t1: "strip (ascii '' hi '') = ascii ''hi''"
    by (simp add: strip_def isspace_def ascii_def)
  have t2: "strip (ascii '' '') = []"
    by (simp add: strip_def isspace_def ascii_def)
  have m: "current_model (demo_app []) = Some (ascii ''m1'')"
    by (simp add: demo_app_def init_app_def)
  have n: "ascii ''m1'' \<noteq> []" "ascii ''hi'' \<noteq> []" "ascii '' '' \<noteq> []"
    "ascii ''hi'' \<noteq> ascii '' hi ''"
    by (simp_all add: ascii_def)
  have r1: "turns_for
     (histories
        (fst (stream_response (demo_env [Line '' hi ''] TagsUnreachable) (ascii ''m1'') []
                (demo_app []))))
     (ascii ''m1'') = [AssistantEntry (ascii ''hi'')]"
    by (simp add: stream_response_state s1 stream_loop_Chunk stream_finish_def t1 m n
        hist_append_turns_for turns_for_def demo_app_def init_app_def
        del: stream_loop.simps(3))
  have r2: "fst (stream_response (demo_env [Line '' ''] TagsUnreachable) (ascii ''m1'') []
      (demo_app [])) = demo_app []"
    by (simp add: stream_response_state s2 stream_loop_Chunk stream_finish_def t2 m
        del: stream_loop.simps(3))
  show ?thesis using r1 r2 n by (simp add: s1 s2)
qed

section \<open>Properties of sending\<close>

lemma tokens_distinct:
  "CLEAR_TOKEN \<noteq> START_TOKEN" "CLEAR_TOKEN \<noteq> STOP_TOKEN" "START_TOKEN \<noteq> STOP_TOKEN"
  "CLEAR_TOKEN \<noteq> []" "START_TOKEN \<noteq> []" "STOP_TOKEN \<noteq> []"
  by (simp_all add: CLEAR_TOKEN_def START_TOKEN_def STOP_TOKEN_def)

lemma on_send_token:
  assumes "current_model a = Some m" "m \<noteq> []" "\<not> is_set (attached_image_path a)"
    and "get_text a \<in> {CLEAR_TOKEN, START_TOKEN, STOP_TOKEN}"
  shows "on_send E a =
     ((fst (handle_special_token a (get_text a)))\<lparr>input_box := []\<rparr>,
      snd (handle_special_token a (get_text a)))"
proof -
  from assms(4) have "get_text a \<noteq> []" using tokens_distinct by auto
  with assms show ?thesis
    by (simp add: on_send_def Let_def split: prod.splits)
qed

lemma handle_clear:
  "current_model a = Some m \<Longrightarrow> m \<noteq> [] \<Longrightarrow>
     handle_special_token a CLEAR_TOKEN =
       (a\<lparr>history := [],
          histories := (if histories a m \<noteq> None then (histories a)(m \<mapsto> []) else histories a)\<rparr>,
        [ShowInfo (ascii ''Clear'') (ascii ''Cleared history for model: '' @ m)])"
  by (simp add: handle_special_token_def)

lemma handle_start:
  "handle_special_token a START_TOKEN =
     (if model_running a then (a, [ShowInfo (ascii ''Model'') (ascii ''Model already running.'')])
      else (a\<lparr>model_running := True\<rparr>, [ShowInfo (ascii ''Model'') (ascii ''Model started.'')]))"
  using tokens_distinct by (simp add: handle_special_token_def)

lemma handle_stop:
  "handle_special_token a STOP_TOKEN =
     (if \<not> model_running a
      then (a, [ShowInfo (ascii ''Model'') (ascii ''Model already stopped.'')])
      else (a\<lparr>model_running := False\<rparr>,
            [ShowInfo (ascii ''Model'')
               (ascii ''Model stopped. Sending messages disabled until start.'')]))"
  using tokens_distinct by (simp add: handle_special_token_def)

text \<open>
  C6. A send whose input text is one of the three control tokens, with a model selected
  and no image attached, shows informational notices only (no stream is started, so no
  connection is opened) and appends no turn to any history. Clear empties the history of
  the selected model and the transcript; start sets the running flag and stop resets it;
  a start while running and a stop while stopped change nothing but the input box, which
  every such send clears.
\<close>

theorem control_tokens_are_local:
  "current_model a = Some m \<and> m \<noteq> [] \<and> \<not> is_set (attached_image_path a) \<and>
   get_text a \<in> {CLEAR_TOKEN, START_TOKEN, STOP_TOKEN} \<longrightarrow>
     (\<forall>e\<in>set (snd (on_send E a)). \<exists>title body. e = ShowInfo title body) \<and>
     (\<forall>m'. turns_for (histories (fst (on_send E a))) m' = turns_for (histories a) m' \<or>
            (get_text a = CLEAR_TOKEN \<and> m' = m \<and>
             turns_for (histories (fst (on_send E a))) m' = [])) \<and>
     (get_text a = CLEAR_TOKEN \<longrightarrow>
        turns_for (histories (fst (on_send E a))) m = [] \<and> history (fst (on_send E a)) = [] \<and>
        model_running (fst (on_send E a)) = model_running a) \<and>
     (get_text a = START_TOKEN \<longrightarrow>
        model_running (fst (on_send E a)) \<and> histories (fst (on_send E a)) = histories a \<and>
        history (fst (on_send E a)) = history a) \<and>
     (get_text a = STOP_TOKEN \<longrightarrow>
        \<not> model_running (fst (on_send E a)) \<and> histories (fst (on_send E a)) = histories a \<and>
        history (fst (on_send E a)) = history a) \<and>
     (get_text a = START_TOKEN \<and> model_running a \<longrightarrow> fst (on_send E a) = a\<lparr>input_box := []\<rparr>) \<and>
     (get_text a = STOP_TOKEN \<and> \<not> model_running a \<longrightarrow> fst (on_send E a) = a\<lparr>input_box := []\<rparr>)"
proof (intro impI)
  assume h: "current_model a = Some m \<and> m \<noteq> [] \<and> \<not> is_set (attached_image_path a) \<and>
   get_text a \<in> {CLEAR_TOKEN, START_TOKEN, STOP_TOKEN}"
  then have s: "on_send E a =
     ((fst (handle_special_token a (get_text a)))\<lparr>input_box := []\<rparr>,
      snd (handle_special_token a (get_text a)))"
    using on_send_token [of a m E] by blast
  from h consider (clear) "get_text a = CLEAR_TOKEN" | (start) "get_text a = START_TOKEN"
    | (stop) "get_text a = STOP_TOKEN"
    by auto
  then show "(\<forall>e\<in>set (snd (on_send E a)). \<exists>title body. e = ShowInfo title body) \<and>
     (\<forall>m'. turns_for (histories (fst (on_send E a))) m' = turns_for (histories a) m' \<or>
            (get_text a = CLEAR_TOKEN \<and> m' = m \<and>
             turns_for (histories (fst (on_send E a))) m' = [])) \<and>
     (get_text a = CLEAR_TOKEN \<longrightarrow>
        turns_for (histories (fst (on_send E a))) m = [] \<and> history (fst (on_send E a)) = [] \<and>
        model_running (fst (on_send E a)) = model_running a) \<and>
     (get_text a = START_TOKEN \<longrightarrow>
        model_running (fst (on_send E a)) \<and> histories (fst (on_send E a)) = histories a \<and>
        history (fst (on_send E a)) = history a) \<and>
     (get_text a = STOP_TOKEN \<longrightarrow>
        \<not> model_running (fst (on_send E a)) \<and> histories (fst (on_send E a)) = histories a \<and>
        history (fst (on_send E a)) = history a) \<and>
     (get_text a = START_TOKEN \<and> model_running a \<longrightarrow> fst (on_send E a) = a\<lparr>input_box := []\<rparr>) \<and>
     (get_text a = STOP_TOKEN \<and> \<not> model_running a \<longrightarrow> fst (on_send E a) = a\<lparr>input_box := []\<rparr>)"
  proof cases
    case clear
    with h have c: "handle_special_token a (get_text a) =
       (a\<lparr>history := [],
          histories := (if histories a m \<noteq> None then (histories a)(m \<mapsto> []) else histories a)\<rparr>,
        [ShowInfo (ascii ''Clear'') (ascii ''Cleared history for model: '' @ m)])"
      using handle_clear [of a m] by simp
    show ?thesis
      unfolding s c using clear tokens_distinct
      by (auto simp: turns_for_def split: option.splits)
  next
    case start
    show ?thesis
      unfolding s using start tokens_distinct by (simp add: handle_start)
  next
    case stop
    show ?thesis
      unfolding s using stop tokens_distinct by (simp add: handle_stop)
  qed
qed

lemma get_text_token:
  "get_text (demo_app CLEAR_TOKEN) = CLEAR_TOKEN" "get_text (demo_app START_TOKEN) = START_TOKEN"
  by (simp_all add: get_text_def demo_app_def init_app_def strip_def isspace_def
      CLEAR_TOKEN_def START_TOKEN_def)

theorem control_tokens_are_local_witness:
  "fst (on_send (demo_env [] TagsUnreachable) (demo_app START_TOKEN)) =
     (demo_app START_TOKEN)\<lparr>input_box := []\<rparr> \<and>
   history (fst (on_send (demo_env [] TagsUnreachable) (demo_app CLEAR_TOKEN))) = [] \<and>
   turns_for (histories (fst (on_send (demo_env [] TagsUnreachable) (demo_app CLEAR_TOKEN))))
     (ascii ''m1'') = []"
proof -
  let ?E = "demo_env [] TagsUnreachable"
  have h1: "current_model (demo_app START_TOKEN) = Some (ascii ''m1'') \<and> ascii ''m1'' \<noteq> [] \<and>
      \<not> is_set (attached_image_path (demo_app START_TOKEN)) \<and>
      get_text (demo_app START_TOKEN) \<in> {CLEAR_TOKEN, START_TOKEN, STOP_TOKEN}"
    by (simp add: get_text_token) (simp add: demo_app_def init_app_def is_set_def ascii_def)
  have r1: "model_running (demo_app START_TOKEN)"
    by (simp add: demo_app_def init_app_def)
  have h2: "current_model (demo_app CLEAR_TOKEN) = Some (ascii ''m1'') \<and> ascii ''m1'' \<noteq> [] \<and>
      \<not> is_set (attached_image_path (demo_app CLEAR_TOKEN)) \<and>
      get_text (demo_app CLEAR_TOKEN) \<in> {CLEAR_TOKEN, START_TOKEN, STOP_TOKEN}"
    by (simp add: get_text_token) (simp add: demo_app_def init_app_def is_set_def ascii_def)
  have c1: "fst (on_send ?E (demo_app START_TOKEN)) = (demo_app START_TOKEN)\<lparr>input_box := []\<rparr>"
    using control_tokens_are_local [where E = ?E and a = "demo_app START_TOKEN" and m = "ascii ''m1''"]
      h1 r1 get_text_token(2)
    by blast
  have c2: "history (fst (on_send ?E (demo_app CLEAR_TOKEN))) = [] \<and>
      turns_for (histories (fst (on_send ?E (demo_app CLEAR_TOKEN)))) (ascii ''m1'') = []"
    using control_tokens_are_local [where E = ?E and a = "demo_app CLEAR_TOKEN" and m = "ascii ''m1''"]
      h2 get_text_token(1)
    by blast
  show ?thesis using c1 c2 by simp
qed

text \<open>
  C7. While the model is stopped, a send that is not an intercepted control token is
  rejected: the state stays as it is, and the only effect is one warning (so no stream
  is started and no turn is recorded).
\<close>

theorem stopped_send_rejected:
  "\<not> model_running a \<and>
   \<not> (get_text a \<in> {CLEAR_TOKEN, START_TOKEN, STOP_TOKEN} \<and> \<not> is_set (attached_image_path a)) \<longrightarrow>
     fst (on_send E a) = a \<and> (\<exists>title body. snd (on_send E a) = [ShowWarning title body])"
  by (auto simp: on_send_def Let_def split: option.splits)

theorem stopped_send_rejected_witness:
  "on_send (demo_env [] TagsUnreachable) ((demo_app (ascii ''hi''))\<lparr>model_running := False\<rparr>) =
     ((demo_app (ascii ''hi''))\<lparr>model_running := False\<rparr>,
      [ShowWarning (ascii ''Model stopped'')
         (ascii ''Model is stopped. Press '' @ START_TOKEN @ ascii '' to start it.'')])"
proof -
  let ?a = "(demo_app (ascii ''hi''))\<lparr>model_running := False\<rparr>"
  have g: "get_text ?a = ascii ''hi''"
    by (simp add: get_text_def demo_app_def init_app_def strip_def isspace_def ascii_def)
  have h: "\<not> model_running ?a \<and>
      \<not> (get_text ?a \<in> {CLEAR_TOKEN, START_TOKEN, STOP_TOKEN} \<and> \<not> is_set (attached_image_path ?a))"
    unfolding g by (simp add: ascii_def CLEAR_TOKEN_def START_TOKEN_def STOP_TOKEN_def)
  have f: "fst (on_send (demo_env [] TagsUnreachable) ?a) = ?a"
    using stopped_send_rejected [where a = ?a and E = "demo_env [] TagsUnreachable"] h by blast
  have c: "current_model ?a = Some (ascii ''m1'')" "attached_image_path ?a = None"
    "\<not> model_running ?a"
    by (simp_all add: demo_app_def init_app_def)
  have n: "ascii ''m1'' \<noteq> []" "ascii ''hi'' \<noteq> []"
    "ascii ''hi'' \<notin> {CLEAR_TOKEN, START_TOKEN, STOP_TOKEN}"
    by (simp_all add: ascii_def CLEAR_TOKEN_def START_TOKEN_def STOP_TOKEN_def)
  have s: "snd (on_send (demo_env [] TagsUnreachable) ?a) =
      [ShowWarning (ascii ''Model stopped'')
         (ascii ''Model is stopped. Press '' @ START_TOKEN @ ascii '' to start it.'')]"
    using n by (simp add: on_send_def Let_def g c is_set_def)
  show ?thesis using f s by (simp add: prod_eq_iff)
qed

section \<open>Model selection and the history a reply is committed to\<close>

lemma insert_user_text_frame:
  "histories (insert_user_text a t) = histories a"
  "current_model (insert_user_text a t) = current_model a"
  by (simp_all add: insert_user_text_def)

lemma insert_assistant_text_frame:
  "histories (insert_assistant_text a t) = histories a"
  "current_model (insert_assistant_text a t) = current_model a"
  by (simp_all add: insert_assistant_text_def Let_def)

lemma append_image_frame:
  "histories (append_image E a caption False) = histories a"
  "current_model (append_image E a caption False) = current_model a"
  by (simp_all add: append_image_def Let_def split: option.splits)

lemma render_entry_frame:
  "histories (render_entry E e a) = histories a"
  "current_model (render_entry E e a) = current_model a"
  by (simp_all add: render_entry_def insert_user_text_frame insert_assistant_text_frame
      append_image_frame split: entry.splits)

lemma fold_render_entry_frame:
  "histories (fold (render_entry E) es a) = histories a \<and>
   current_model (fold (render_entry E) es a) = current_model a"
  by (induction es arbitrary: a) (simp_all add: render_entry_frame)

text \<open>Selecting a model redraws the transcript and changes no stored turn sequence.\<close>

lemma model_switch_keeps_histories: "histories (on_model_select E sel a) = histories a"
  by (cases sel) (simp_all add: on_model_select_def Let_def fold_render_entry_frame)

lemma model_switch_selects:
  "current_model (on_model_select E (i # rest) a) = Some (listbox_get (model_listbox a) i)"
  by (simp add: on_model_select_def Let_def fold_render_entry_frame)

text \<open>
  C8 on the code. With \<open>m1\<close> selected the user sends \<open>hi\<close>; the stream is started for
  \<open>m1\<close>; the user selects \<open>m2\<close> before the stream has ended; the stream delivers
  \<open>He\<close>, \<open>llo!\<close> and ends. The reply to the question put to \<open>m1\<close> is appended to the
  history of \<open>m2\<close>, and the history of \<open>m1\<close> holds the user turn alone.
\<close>

theorem reply_lands_in_selected_model:
  "snd (on_send (demo_env [Line ''He'', Line ''llo!''] TagsUnreachable) (demo_app (ascii ''hi''))) =
     [StartStream (ascii ''m1'')
        [system_prompt, \<lparr>role = ascii ''user'', content = ascii ''hi'', images = None\<rparr>]] \<and>
   current_model
     (send_then_switch (demo_env [Line ''He'', Line ''llo!''] TagsUnreachable) [1]
        (demo_app (ascii ''hi''))) = Some (ascii ''m2'') \<and>
   turns_for
     (histories
        (send_then_switch (demo_env [Line ''He'', Line ''llo!''] TagsUnreachable) [1]
           (demo_app (ascii ''hi''))))
     (ascii ''m1'') = [UserEntry (ascii ''hi'')] \<and>
   turns_for
     (histories
        (send_then_switch (demo_env [Line ''He'', Line ''llo!''] TagsUnreachable) [1]
           (demo_app (ascii ''hi''))))
     (ascii ''m2'') = [AssistantEntry (ascii ''Hello!'')]"
proof -
  let ?E = "demo_env [Line ''He'', Line ''llo!''] TagsUnreachable"
  let ?a0 = "demo_app (ascii ''hi'')"
  let ?msgs = "[system_prompt, \<lparr>role = ascii ''user'', content = ascii ''hi'', images = None\<rparr>]"
  let ?a1 = "(append_user ?a0 (ascii ''hi'') True)\<lparr>input_box := [], attached_image_path := None\<rparr>"
  have g: "get_text ?a0 = ascii ''hi''"
    by (simp add: get_text_def demo_app_def init_app_def strip_def isspace_def ascii_def)
  have c: "current_model ?a0 = Some (ascii ''m1'')" "attached_image_path ?a0 = None"
    "model_running ?a0" "model_listbox ?a0 = [ascii ''m1'', ascii ''m2'']"
    "histories ?a0 = Map.empty"
    by (simp_all add: demo_app_def init_app_def)
  have n: "ascii ''m1'' \<noteq> []" "ascii ''hi'' \<noteq> []" "ascii ''m2'' \<noteq> []"
    "ascii ''hi'' \<notin> {CLEAR_TOKEN, START_TOKEN, STOP_TOKEN}" "ascii ''m1'' \<noteq> ascii ''m2''"
    by (simp_all add: ascii_def CLEAR_TOKEN_def START_TOKEN_def STOP_TOKEN_def)
  have s: "on_send ?E ?a0 = (?a1, [StartStream (ascii ''m1'') ?msgs])"
    using n
    by (simp add: on_send_def Let_def g c is_set_def send_message_def read_attachment_def)
  have h1: "histories ?a1 = [ascii ''m1'' \<mapsto> [UserEntry (ascii ''hi'')]]"
    "model_listbox ?a1 = [ascii ''m1'', ascii ''m2'']"
    using n by (simp_all add: append_user_def insert_user_text_def c hist_append_def)
  let ?a2 = "on_model_select ?E [Suc 0] ?a1"
  have h2: "histories ?a2 = [ascii ''m1'' \<mapsto> [UserEntry (ascii ''hi'')]]"
    "current_model ?a2 = Some (ascii ''m2'')"
    by (simp_all add: model_switch_keeps_histories model_switch_selects h1 listbox_get_def)
  have l: "snd (stream_loop ?E [] (chat_stream ?E (ascii ''m1'') ?msgs)) = Inr (ascii ''Hello!'')"
    by (simp add: demo_stream stream_loop_Chunk ascii_def del: stream_loop.simps(3))
  have r: "send_then_switch ?E [Suc 0] (demo_app (ascii ''hi'')) =
      ?a2\<lparr>histories := hist_append (histories ?a2) (ascii ''m2'') (AssistantEntry (ascii ''Hello!''))\<rparr>"
    using n by (simp add: send_then_switch_def s l stream_finish_def strip_Hello h2 Let_def
        ascii_Nil_iff)
  show ?thesis
    unfolding One_nat_def r using n by (simp add: s h2 hist_append_def turns_for_def)
qed

end
